theory Spec2Isabelle
  imports Main "HOL-Library.Sublist" "HOL-Library.AList" "HOL-Library.Multiset"
begin

section \<open>Data model (internal/config/config.go)\<close>

text \<open>
  Go maps (\<open>map[string]string\<close>, \<open>map[string]interface{}\<close>) are association lists whose
  keys are distinct; the order of the list stands for the order in which a \<open>range\<close> loop
  happens to visit the entries. Instants of \<open>time.Time\<close> are integers (nanoseconds).
\<close>

record WebhookConfig =
  URL :: string
  Method :: string
  Headers :: "(string \<times> string) list"
  Body :: string
  JQSelectors :: "(string \<times> string) list"
  BodyTemplate :: string
  OnlyIfVarsNonEmpty :: bool
  Timeout :: int
  Enabled :: bool

record Reminder =
  ReminderID :: string
  Text :: string
  Datetime :: int

record CronJob =
  ID :: string
  Name :: string
  Schedule :: string
  JobEnabled :: bool
  Primary :: WebhookConfig
  Secondary :: "WebhookConfig option"
  SaveOutput :: bool
  Description :: string
  Reminders :: "Reminder list"

text \<open>The errors the scheduler and the configuration produce, as values.\<close>

datatype error =
    CreateRequestError
  | TransportError
  | ReadBodyError
  | WebhookStatusError int string
  | JSONParseError
  | ScheduleParseError
  | JobNotFound string
  | ReminderNotFound string string

text \<open>
  A dynamic value held in an \<open>interface{}\<close>: a Go string, or one of the other values that
  \<open>gojq\<close> yields. Numbers are carried, never computed with.
\<close>

datatype number = NumInt int | NumFloat int int | NumNaN | NumInf bool

datatype json =
    JNull
  | JBool bool
  | JNumber number
  | JString string
  | JArray "json list"
  | JObject "(string \<times> json) list"

datatype query = Query string

text \<open>An HTTP request as \<open>executeWebhook\<close> builds it, and what the network answers.\<close>

record Request =
  req_Method :: string
  req_URL :: string
  req_Header :: "(string \<times> string) list"
  req_Body :: "string option"
  req_Timeout :: "int option"

datatype outcome =
    DoFailed
  | ReadAllFailed int
  | Response int string

text \<open>
  The collaborators outside the repository, as parameters: the HTTP client (its answer may
  depend on every request sent before), \<open>encoding/json\<close>, \<open>gojq\<close>, \<open>fmt\<close>, the parser of
  \<open>robfig/cron\<close>, the clock (\<open>Now w k\<close> is the k-th reading of \<open>time.Now()\<close>), the choice
  of the order in which \<open>range\<close> visits a map of variables (a number, see \<open>rangeOrder\<close>),
  and whether writing the configuration file succeeds.
\<close>

record world =
  NewRequest_ok :: "string \<Rightarrow> string \<Rightarrow> bool"
  CanonicalHeaderKey :: "string \<Rightarrow> string"
  http_Do :: "Request list \<Rightarrow> Request \<Rightarrow> outcome"
  json_Unmarshal :: "string \<Rightarrow> json option"
  json_Marshal :: "json \<Rightarrow> string option"
  Sprintf_v :: "json \<Rightarrow> string"
  gojq_Parse :: "string \<Rightarrow> query option"
  gojq_Run :: "query \<Rightarrow> json \<Rightarrow> (string + json) list"
  cron_Parse_ok :: "string \<Rightarrow> bool"
  Now :: "nat \<Rightarrow> int"
  range_seed :: "(string \<times> json) list \<Rightarrow> nat"
  WriteFile_ok :: "CronJob list \<Rightarrow> bool"

text \<open>
  The scheduler (\<open>Scheduler\<close> in scheduler.go) with the state of its environment:
  \<open>cron\<close> holds the entries of the cron engine (entry id and the job its action closes over),
  \<open>jobs\<close>, \<open>outputs\<close> and \<open>reminders\<close> are the three maps of the struct, \<open>config\<close> is
  \<open>config.Jobs\<close>; \<open>timers\<close> holds the pending timers of the runtime (handle, instant of
  firing, and the job and reminder its action closes over), \<open>sent\<close> the HTTP requests sent so
  far, \<open>disk\<close> the jobs last written to the configuration file, \<open>ticks\<close> the number of clock
  readings taken.
\<close>

record Scheduler =
  cron :: "(nat \<times> CronJob) list"
  nextID :: nat
  jobs :: "(string \<times> nat) list"
  config :: "CronJob list"
  outputs :: "(string \<times> string) list"
  reminders :: "(string \<times> nat) list"
  timers :: "(nat \<times> int \<times> CronJob \<times> Reminder) list"
  nextTimer :: nat
  sent :: "Request list"
  disk :: "CronJob list"
  ticks :: nat

text \<open>
  \<open>New\<close>: empty registries. The configuration file is taken to hold the jobs the
  scheduler starts with.
\<close>

definition New :: "CronJob list \<Rightarrow> Scheduler" where
  "New cfg = \<lparr>cron = [], nextID = 0, jobs = [], config = cfg, outputs = [], reminders = [],
     timers = [], nextTimer = 0, sent = [], disk = cfg, ticks = 0\<rparr>"

section \<open>Strings (the functions of package strings that the template engine uses)\<close>

text \<open>
  \<open>strings.ReplaceAll s old new\<close>: every non-overlapping occurrence of \<open>old\<close>, found from
  the left, is replaced. For an empty \<open>old\<close> (which no caller here passes: every placeholder
  begins with two braces) \<open>new\<close> is inserted before every byte and at the end.
\<close>

function ReplaceAll :: "string \<Rightarrow> string \<Rightarrow> string \<Rightarrow> string" where
  "ReplaceAll [] old new = (if old = [] then new else [])"
| "ReplaceAll (c # s) old new =
     (if old = [] then new @ c # ReplaceAll s old new
      else if prefix old (c # s) then new @ ReplaceAll (drop (length old) (c # s)) old new
      else c # ReplaceAll s old new)"
  by pat_completeness auto
termination
  by (relation "measure (\<lambda>(s, old, new). length s)") auto

fun Contains :: "string \<Rightarrow> string \<Rightarrow> bool" where
  "Contains [] substr = (substr = [])"
| "Contains (c # s) substr = (prefix substr (c # s) \<or> Contains s substr)"

definition HasPrefix :: "string \<Rightarrow> string \<Rightarrow> bool" where
  "HasPrefix s p = prefix p s"

section \<open>TemplateEngine: processTemplate (scheduler.go)\<close>

text \<open>The four replacements that \<open>processTemplate\<close> applies to a string value.\<close>

definition escapeJSON :: "string \<Rightarrow> string" where
  "escapeJSON str =
     (let escapedStr = ReplaceAll str [CHR 0x0A] [CHR 0x5C, CHR ''n''];
          escapedStr = ReplaceAll escapedStr [CHR 0x0D] [CHR 0x5C, CHR ''r''];
          escapedStr = ReplaceAll escapedStr [CHR 0x09] [CHR 0x5C, CHR ''t''];
          escapedStr = ReplaceAll escapedStr [CHR 0x22] [CHR 0x5C, CHR 0x22]
      in escapedStr)"

text \<open>
  The text that replaces a placeholder: the escaped string for a string value; for any
  other value its JSON encoding, or \<open>fmt.Sprintf("%v", value)\<close> when encoding fails.
\<close>

definition valueText :: "world \<Rightarrow> json \<Rightarrow> string" where
  "valueText w v =
     (case v of
        JString str \<Rightarrow> escapeJSON str
      | _ \<Rightarrow> (case json_Marshal w v of
                Some valueBytes \<Rightarrow> valueBytes
              | None \<Rightarrow> Sprintf_v w v))"

definition placeholder :: "string \<Rightarrow> string" where
  "placeholder varName = ''{{'' @ varName @ ''}}''"

text \<open>
  Go leaves the order of a \<open>range\<close> over a map unspecified. \<open>rangeOrder n xs\<close> is the
  permutation of the entries chosen by the number \<open>n\<close>: each entry is inserted at a position
  read off \<open>n\<close>.
\<close>

fun rangeOrder :: "nat \<Rightarrow> 'a list \<Rightarrow> 'a list" where
  "rangeOrder n [] = []"
| "rangeOrder n (x # xs) =
     (let ys = rangeOrder (n div Suc (length xs)) xs;
          k = n mod Suc (length xs)
      in take k ys @ x # drop k ys)"

text \<open>The loop over the other variables, in the order \<open>range\<close> visits them.\<close>

fun otherVariables :: "world \<Rightarrow> string \<Rightarrow> (string \<times> json) list \<Rightarrow> string" where
  "otherVariables w result [] = result"
| "otherVariables w result ((varName, v) # rest) =
     (if varName = ''REMINDER'' then otherVariables w result rest
      else if \<not> Contains result (placeholder varName) then otherVariables w result rest
      else otherVariables w (ReplaceAll result (placeholder varName) (valueText w v)) rest)"

definition processTemplate ::
  "world \<Rightarrow> string \<Rightarrow> (string \<times> json) list \<Rightarrow> error + string" where
  "processTemplate w templateStr variables =
     (if templateStr = [] then Inr templateStr
      else
        let result = templateStr;
            reminderPlaceholder = ''{{REMINDER}}'';
            result =
              (if Contains result reminderPlaceholder then
                 (case map_of variables ''REMINDER'' of
                    Some reminderText \<Rightarrow>
                      ReplaceAll result reminderPlaceholder (valueText w reminderText)
                  | None \<Rightarrow> ReplaceAll result reminderPlaceholder [])
               else result)
        in Inr (otherVariables w result (rangeOrder (range_seed w variables) variables)))"

section \<open>WebhookExecutor: executeWebhook (scheduler.go)\<close>

text \<open>
  The request of \<open>executeWebhook\<close>: \<open>Header.Set\<close> stores a value under the canonical form
  of its key; the content type defaults to JSON when none is set and there is a body; the
  body is absent when \<open>Body\<close> is empty; a positive \<open>Timeout\<close> becomes the deadline of the
  request.
\<close>

definition buildHeader :: "world \<Rightarrow> WebhookConfig \<Rightarrow> (string \<times> string) list" where
  "buildHeader w webhook =
     (let h = foldl (\<lambda>h (key, v). AList.update (CanonicalHeaderKey w key) v h) [] (Headers webhook)
      in if (case map_of h ''Content-Type'' of None \<Rightarrow> True | Some v \<Rightarrow> v = [])
            \<and> Body webhook \<noteq> []
         then AList.update ''Content-Type'' ''application/json'' h
         else h)"

definition buildRequest :: "world \<Rightarrow> WebhookConfig \<Rightarrow> Request" where
  "buildRequest w webhook =
     \<lparr>req_Method = Method webhook,
      req_URL = URL webhook,
      req_Header = buildHeader w webhook,
      req_Body = (if Body webhook \<noteq> [] then Some (Body webhook) else None),
      req_Timeout = (if Timeout webhook > 0 then Some (Timeout webhook) else None)\<rparr>"

text \<open>
  \<open>executeWebhook\<close> returns the response body or an error; the request joins \<open>sent\<close> as
  soon as it is handed to the HTTP client.
\<close>

definition executeWebhook ::
  "world \<Rightarrow> WebhookConfig \<Rightarrow> Scheduler \<Rightarrow> (error + string) \<times> Scheduler" where
  "executeWebhook w webhook s =
     (if \<not> NewRequest_ok w (Method webhook) (URL webhook) then (Inl CreateRequestError, s)
      else
        let req = buildRequest w webhook;
            s' = s\<lparr>sent := sent s @ [req]\<rparr>
        in (case http_Do w (sent s) req of
              DoFailed \<Rightarrow> (Inl TransportError, s')
            | ReadAllFailed statusCode \<Rightarrow> (Inl ReadBodyError, s')
            | Response statusCode responseBody \<Rightarrow>
                (if statusCode \<ge> 400 then (Inl (WebhookStatusError statusCode responseBody), s')
                 else (Inr responseBody, s'))))"

section \<open>VariableExtractor: extractVariables (scheduler.go)\<close>

text \<open>
  The inner loop over \<open>iter.Next()\<close>: the results the iterator yields are a list, an error
  among them is \<open>Inl\<close>. An error is logged and the loop goes on to the next result; the
  first value ends the loop.
\<close>

fun firstResult :: "(string + json) list \<Rightarrow> json option" where
  "firstResult [] = None"
| "firstResult (Inl err # rest) = firstResult rest"
| "firstResult (Inr v # rest) = Some v"

fun extractLoop ::
  "world \<Rightarrow> json \<Rightarrow> (string \<times> string) list \<Rightarrow> (string \<times> json) list \<Rightarrow> (string \<times> json) list" where
  "extractLoop w data [] variables = variables"
| "extractLoop w data ((varName, selector) # rest) variables =
     (case gojq_Parse w selector of
        None \<Rightarrow> extractLoop w data rest variables
      | Some q \<Rightarrow>
          (case firstResult (gojq_Run w q data) of
             None \<Rightarrow> extractLoop w data rest variables
           | Some v \<Rightarrow> extractLoop w data rest (AList.update varName v variables)))"

definition extractVariables ::
  "world \<Rightarrow> string \<Rightarrow> (string \<times> string) list \<Rightarrow> error + (string \<times> json) list" where
  "extractVariables w jsonData selectors =
     (if length selectors = 0 then Inr []
      else (case json_Unmarshal w jsonData of
              None \<Rightarrow> Inl JSONParseError
            | Some data \<Rightarrow> Inr (extractLoop w data selectors [])))"

section \<open>CronEngine: executeJob (scheduler.go)\<close>

definition executeJob :: "world \<Rightarrow> CronJob \<Rightarrow> Scheduler \<Rightarrow> Scheduler" where
  "executeJob w job s =
     (case executeWebhook w (Primary job) s of
        (Inl err, s1) \<Rightarrow> s1
      | (Inr output, s1) \<Rightarrow>
          let s2 = (if SaveOutput job \<and> output \<noteq> []
                    then s1\<lparr>outputs := AList.update (ID job) output (outputs s1)\<rparr>
                    else s1)
          in (case Secondary job of
                None \<Rightarrow> s2
              | Some sec \<Rightarrow>
                  if \<not> Enabled sec then s2
                  else if SaveOutput job then
                    (let data = (case map_of (outputs s2) (ID job) of Some d \<Rightarrow> d | None \<Rightarrow> [])
                     in if data \<noteq> [] then
                          let variables =
                                (if length (JQSelectors sec) > 0 then
                                   (case extractVariables w data (JQSelectors sec) of
                                      Inl err \<Rightarrow> []
                                    | Inr vars \<Rightarrow> vars)
                                 else []);
                              secondary =
                                (if BodyTemplate sec \<noteq> [] then
                                   (case processTemplate w (BodyTemplate sec) variables of
                                      Inl err \<Rightarrow> sec\<lparr>Body := data\<rparr>
                                    | Inr processedBody \<Rightarrow> sec\<lparr>Body := processedBody\<rparr>)
                                 else sec\<lparr>Body := data\<rparr>)
                          in snd (executeWebhook w secondary s2)
                        else s2)
                  else snd (executeWebhook w sec s2)))"

section \<open>The job repository (internal/config/config.go)\<close>

fun config_AddJob :: "CronJob list \<Rightarrow> CronJob \<Rightarrow> CronJob list" where
  "config_AddJob [] job = [job]"
| "config_AddJob (existingJob # rest) job =
     (if ID existingJob = ID job then job # rest else existingJob # config_AddJob rest job)"

fun config_DeleteJob :: "CronJob list \<Rightarrow> string \<Rightarrow> error + CronJob list" where
  "config_DeleteJob [] jobID = Inl (JobNotFound jobID)"
| "config_DeleteJob (job # rest) jobID =
     (if ID job = jobID then Inr rest
      else (case config_DeleteJob rest jobID of
              Inl err \<Rightarrow> Inl err
            | Inr rest' \<Rightarrow> Inr (job # rest')))"


text \<open>
  \<open>DeleteReminder\<close> returns the updated jobs, or the error it reports; on an error the
  jobs stay as they are.
\<close>

fun config_DeleteReminder :: "CronJob list \<Rightarrow> string \<Rightarrow> string \<Rightarrow> error + CronJob list" where
  "config_DeleteReminder [] jobID reminderID = Inl (JobNotFound jobID)"
| "config_DeleteReminder (job # rest) jobID reminderID =
     (if ID job = jobID then
        (let updatedReminders = filter (\<lambda>reminder. ReminderID reminder \<noteq> reminderID) (Reminders job);
             reminderFound = (reminderID \<in> set (map ReminderID (Reminders job)))
         in if \<not> reminderFound then Inl (ReminderNotFound reminderID jobID)
            else Inr (job\<lparr>Reminders := updatedReminders\<rparr> # rest))
      else (case config_DeleteReminder rest jobID reminderID of
              Inl err \<Rightarrow> Inl err
            | Inr rest' \<Rightarrow> Inr (job # rest')))"

section \<open>ReminderManager (scheduler.go)\<close>

definition reminderKey :: "string \<Rightarrow> string \<Rightarrow> string" where
  "reminderKey jobID reminderID = jobID @ ''_'' @ reminderID"

text \<open>
  \<open>removeJobReminders\<close>: the loop visits the entries of the map \<open>reminders\<close>; stopping a
  timer takes it out of the pending timers.
\<close>

fun removeLoop :: "string \<Rightarrow> (string \<times> nat) list \<Rightarrow> Scheduler \<Rightarrow> Scheduler" where
  "removeLoop jobID [] s = s"
| "removeLoop jobID ((reminderID, timer) # rest) s =
     (if HasPrefix reminderID (jobID @ ''_'') then
        removeLoop jobID rest
          (s\<lparr>timers := AList.delete timer (timers s),
             reminders := AList.delete reminderID (reminders s)\<rparr>)
      else removeLoop jobID rest s)"

definition removeJobReminders :: "string \<Rightarrow> Scheduler \<Rightarrow> Scheduler" where
  "removeJobReminders jobID s = removeLoop jobID (reminders s) s"

definition removeReminder :: "string \<Rightarrow> string \<Rightarrow> Scheduler \<Rightarrow> Scheduler" where
  "removeReminder jobID reminderID s =
     (case map_of (reminders s) (reminderKey jobID reminderID) of
        Some timer \<Rightarrow>
          s\<lparr>timers := AList.delete timer (timers s),
            reminders := AList.delete (reminderKey jobID reminderID) (reminders s)\<rparr>
      | None \<Rightarrow> s)"

text \<open>
  \<open>Time.Sub\<close> yields a \<open>Duration\<close>, a signed 64-bit count of nanoseconds, and saturates.
\<close>

definition maxDuration :: int where
  "maxDuration = 2 ^ 63 - 1"

definition minDuration :: int where
  "minDuration = - (2 ^ 63)"

definition Sub :: "int \<Rightarrow> int \<Rightarrow> int" where
  "Sub t u =
     (let d = t - u
      in if d < minDuration then minDuration else if d > maxDuration then maxDuration else d)"

text \<open>
  \<open>scheduleReminder\<close> (its error result is always nil): \<open>Before\<close> is the strict order of
  instants; \<open>time.AfterFunc\<close> creates a pending timer that fires once the duration has passed.
\<close>

definition scheduleReminder :: "world \<Rightarrow> CronJob \<Rightarrow> Reminder \<Rightarrow> Scheduler \<Rightarrow> Scheduler" where
  "scheduleReminder w job reminder s0 =
     (let now = Now w (ticks s0);
          s = s0\<lparr>ticks := Suc (ticks s0)\<rparr>
      in if Datetime reminder < now then s
         else
           let duration = Sub (Datetime reminder) now;
               timer = Suc (nextTimer s)
           in s\<lparr>nextTimer := timer,
                timers := timers s @ [(timer, now + duration, job, reminder)],
                reminders := AList.update (reminderKey (ID job) (ReminderID reminder)) timer (reminders s)\<rparr>)"

text \<open>
  \<open>executeReminder\<close> in three parts: \<open>reminderPrimary\<close> is the webhook of the primary call
  (the body rendered with the variable \<open>REMINDER\<close>), \<open>reminderSecondary\<close> the webhook of the
  secondary call (its body built from the primary response, or from the text of the reminder
  when there is no response; \<open>fallbackBody\<close> is the JSON object made by \<open>fmt.Sprintf\<close>), and
  \<open>cleanupReminder\<close> what follows the two calls.
\<close>

definition fallbackBody :: "string \<Rightarrow> string" where
  \<open>fallbackBody text = ''{"reminder": "'' @ text @ ''", "message": "'' @ text @ ''"}''\<close>

definition reminderPrimary :: "world \<Rightarrow> CronJob \<Rightarrow> Reminder \<Rightarrow> WebhookConfig" where
  "reminderPrimary w job reminder =
     (let reminderWebhook = Primary job
      in if Body reminderWebhook \<noteq> [] then
           (case processTemplate w (Body reminderWebhook) [(''REMINDER'', JString (Text reminder))] of
              Inl err \<Rightarrow> reminderWebhook
            | Inr processedBody \<Rightarrow> reminderWebhook\<lparr>Body := processedBody\<rparr>)
         else reminderWebhook)"

definition reminderSecondary ::
  "world \<Rightarrow> WebhookConfig \<Rightarrow> Reminder \<Rightarrow> string \<Rightarrow> WebhookConfig" where
  "reminderSecondary w sec reminder primaryResponse =
     (let secondaryWebhook = sec
      in if primaryResponse \<noteq> [] then
           (let variables =
                  (if length (JQSelectors sec) > 0 then
                     (case extractVariables w primaryResponse (JQSelectors sec) of
                        Inl err \<Rightarrow> []
                      | Inr vars \<Rightarrow> vars)
                   else []);
                variables = AList.update ''REMINDER'' (JString (Text reminder)) variables;
                variables =
                  (case map_of variables ''message'' of
                     None \<Rightarrow> AList.update ''message'' (JString primaryResponse) variables
                   | Some v \<Rightarrow> variables)
            in if BodyTemplate secondaryWebhook \<noteq> [] then
                 (case processTemplate w (BodyTemplate secondaryWebhook) variables of
                    Inl err \<Rightarrow> secondaryWebhook\<lparr>Body := primaryResponse\<rparr>
                  | Inr processedBody \<Rightarrow> secondaryWebhook\<lparr>Body := processedBody\<rparr>)
               else if Body secondaryWebhook \<noteq> [] then
                 (case processTemplate w (Body secondaryWebhook) variables of
                    Inl err \<Rightarrow> secondaryWebhook
                  | Inr processedBody \<Rightarrow> secondaryWebhook\<lparr>Body := processedBody\<rparr>)
               else secondaryWebhook\<lparr>Body := primaryResponse\<rparr>)
         else
           (let variables =
                  [(''REMINDER'', JString (Text reminder)), (''message'', JString (Text reminder))]
            in if BodyTemplate secondaryWebhook \<noteq> [] then
                 (case processTemplate w (BodyTemplate secondaryWebhook) variables of
                    Inl err \<Rightarrow> secondaryWebhook\<lparr>Body := fallbackBody (Text reminder)\<rparr>
                  | Inr processedBody \<Rightarrow> secondaryWebhook\<lparr>Body := processedBody\<rparr>)
               else if Body secondaryWebhook \<noteq> [] then
                 (case processTemplate w (Body secondaryWebhook) variables of
                    Inl err \<Rightarrow> secondaryWebhook
                  | Inr processedBody \<Rightarrow> secondaryWebhook\<lparr>Body := processedBody\<rparr>)
               else secondaryWebhook\<lparr>Body := fallbackBody (Text reminder)\<rparr>))"

text \<open>
  The end of \<open>executeReminder\<close>: the key leaves \<open>reminders\<close>, the reminder is deleted
  from the repository, and the configuration is saved when the deletion succeeded
  (\<open>Config.Save\<close> writes the jobs to the file, or fails and leaves the file as it was).
\<close>

definition cleanupReminder :: "world \<Rightarrow> CronJob \<Rightarrow> Reminder \<Rightarrow> Scheduler \<Rightarrow> Scheduler" where
  "cleanupReminder w job reminder s =
     (let s1 = s\<lparr>reminders := AList.delete (reminderKey (ID job) (ReminderID reminder)) (reminders s)\<rparr>
      in (case config_DeleteReminder (config s1) (ID job) (ReminderID reminder) of
            Inl err \<Rightarrow> s1
          | Inr jobs' \<Rightarrow>
              let s2 = s1\<lparr>config := jobs'\<rparr>
              in if WriteFile_ok w jobs' then s2\<lparr>disk := jobs'\<rparr> else s2))"

definition executeReminder :: "world \<Rightarrow> CronJob \<Rightarrow> Reminder \<Rightarrow> Scheduler \<Rightarrow> Scheduler" where
  "executeReminder w job reminder s =
     (case executeWebhook w (reminderPrimary w job reminder) s of
        (r, s1) \<Rightarrow>
          let primaryResponse = (case r of Inl err \<Rightarrow> [] | Inr response \<Rightarrow> response);
              s2 = (case Secondary job of
                      None \<Rightarrow> s1
                    | Some sec \<Rightarrow>
                        if Enabled sec
                        then snd (executeWebhook w (reminderSecondary w sec reminder primaryResponse) s1)
                        else s1)
          in cleanupReminder w job reminder s2)"

text \<open>
  \<open>executeReminder\<close> takes the lock of the scheduler for its cleanup only, after the two
  calls, so another operation of the scheduler may run between the calls and the cleanup.
  \<open>reminderCalls\<close> is \<open>executeReminder\<close> up to the cleanup.
\<close>

definition reminderCalls :: "world \<Rightarrow> CronJob \<Rightarrow> Reminder \<Rightarrow> Scheduler \<Rightarrow> Scheduler" where
  "reminderCalls w job reminder s =
     (case executeWebhook w (reminderPrimary w job reminder) s of
        (r, s1) \<Rightarrow>
          let primaryResponse = (case r of Inl err \<Rightarrow> [] | Inr response \<Rightarrow> response)
          in (case Secondary job of
                None \<Rightarrow> s1
              | Some sec \<Rightarrow>
                  if Enabled sec
                  then snd (executeWebhook w (reminderSecondary w sec reminder primaryResponse) s1)
                  else s1))"

section \<open>Scheduler: AddJob and RemoveJob (scheduler.go)\<close>

text \<open>
  \<open>cron.AddFunc\<close> fails on a schedule that does not parse; otherwise it appends an entry
  under the next entry id. \<open>cron.Remove\<close> drops the entry.
\<close>

definition AddJob :: "world \<Rightarrow> CronJob \<Rightarrow> Scheduler \<Rightarrow> error option \<times> Scheduler" where
  "AddJob w job s =
     (let s1 = (case map_of (jobs s) (ID job) of
                  Some entryID \<Rightarrow>
                    s\<lparr>cron := AList.delete entryID (cron s), jobs := AList.delete (ID job) (jobs s)\<rparr>
                | None \<Rightarrow> s);
          s2 = removeJobReminders (ID job) s1
      in if \<not> JobEnabled job then (None, s2)
         else if \<not> cron_Parse_ok w (Schedule job) then (Some ScheduleParseError, s2)
         else
           let entryID = Suc (nextID s2);
               s3 = s2\<lparr>nextID := entryID,
                       cron := cron s2 @ [(entryID, job)],
                       jobs := AList.update (ID job) entryID (jobs s2)\<rparr>
           in (None, foldl (\<lambda>s reminder. scheduleReminder w job reminder s) s3 (Reminders job)))"

definition RemoveJob :: "string \<Rightarrow> Scheduler \<Rightarrow> error option \<times> Scheduler" where
  "RemoveJob jobID s =
     (let s1 = (case map_of (jobs s) jobID of
                  Some entryID \<Rightarrow>
                    s\<lparr>cron := AList.delete entryID (cron s),
                      jobs := AList.delete jobID (jobs s),
                      outputs := AList.delete jobID (outputs s)\<rparr>
                | None \<Rightarrow> s)
      in (None, removeJobReminders jobID s1))"

section \<open>Notions used to state the properties of the template engine\<close>

text \<open>A name without braces, as the names of placeholders and variables usually are.\<close>

definition braceFree :: "string \<Rightarrow> bool" where
  "braceFree k = (CHR ''{'' \<notin> set k \<and> CHR ''}'' \<notin> set k)"

text \<open>
  Following the spec's words (section 4.5), not the source: string values are inserted with
  JSON string-escaping applied to newline, carriage return, tab and the double quote; every
  other character is inserted as it is.
\<close>

definition spec_escapedChar :: "char \<Rightarrow> string" where
  "spec_escapedChar c =
     (if c = CHR 0x0A then [CHR 0x5C, CHR ''n'']
      else if c = CHR 0x0D then [CHR 0x5C, CHR ''r'']
      else if c = CHR 0x09 then [CHR 0x5C, CHR ''t'']
      else if c = CHR 0x22 then [CHR 0x5C, CHR 0x22]
      else [c])"

section \<open>Concrete worlds and jobs, for evaluation\<close>

text \<open>A world whose network answers every request with status 500.\<close>

definition world500 :: world where
  "world500 = \<lparr>NewRequest_ok = (\<lambda>m u. True), CanonicalHeaderKey = (\<lambda>k. k),
     http_Do = (\<lambda>hist req. Response 500 ''boom''),
     json_Unmarshal = (\<lambda>s. None), json_Marshal = (\<lambda>v. None), Sprintf_v = (\<lambda>v. []),
     gojq_Parse = (\<lambda>s. None), gojq_Run = (\<lambda>q d. []), cron_Parse_ok = (\<lambda>s. True),
     Now = (\<lambda>k. 0), range_seed = (\<lambda>vs. 0), WriteFile_ok = (\<lambda>js. True)\<rparr>"

definition hookA :: WebhookConfig where
  "hookA = \<lparr>URL = ''http://a'', Method = ''POST'', Headers = [], Body = ''x'', JQSelectors = [],
     BodyTemplate = [], OnlyIfVarsNonEmpty = False, Timeout = 0, Enabled = True\<rparr>"

definition jobA :: CronJob where
  "jobA = \<lparr>ID = ''a'', Name = ''n'', Schedule = ''* * * * *'', JobEnabled = True, Primary = hookA,
     Secondary = Some (hookA\<lparr>URL := ''http://b''\<rparr>), SaveOutput = True, Description = [],
     Reminders = []\<rparr>"

text \<open>A world whose network answers every request with status 200 and the body \<open>out\<close>;
  its clock always reads 100.\<close>

definition worldOK :: world where
  "worldOK = \<lparr>NewRequest_ok = (\<lambda>m u. True), CanonicalHeaderKey = (\<lambda>k. k),
     http_Do = (\<lambda>hist req. Response 200 ''out''),
     json_Unmarshal = (\<lambda>s. None), json_Marshal = (\<lambda>v. None), Sprintf_v = (\<lambda>v. []),
     gojq_Parse = (\<lambda>s. None), gojq_Run = (\<lambda>q d. []), cron_Parse_ok = (\<lambda>s. True),
     Now = (\<lambda>k. 100), range_seed = (\<lambda>vs. 0), WriteFile_ok = (\<lambda>js. True)\<rparr>"

definition reminderAt :: "int \<Rightarrow> Reminder" where
  "reminderAt t = \<lparr>ReminderID = ''r'', Text = ''hello'', Datetime = t\<rparr>"

definition jobR :: CronJob where
  "jobR = \<lparr>ID = ''a'', Name = ''n'', Schedule = ''* * * * *'', JobEnabled = True, Primary = hookA,
     Secondary = None, SaveOutput = False, Description = [], Reminders = [reminderAt 100]\<rparr>"

text \<open>A job that does not save its output and whose secondary webhook has both a body and a
  body template.\<close>

definition hookT :: WebhookConfig where
  "hookT = hookA\<lparr>URL := ''http://b'', Body := ''b'', BodyTemplate := ''t''\<rparr>"

definition jobT :: CronJob where
  "jobT = \<lparr>ID = ''a'', Name = ''n'', Schedule = ''* * * * *'', JobEnabled = True, Primary = hookA,
     Secondary = Some hookT, SaveOutput = False, Description = [], Reminders = []\<rparr>"

text \<open>Two jobs, the id of the second extending the id of the first after an underscore; the
  second has a reminder in the future. \<open>stateAB\<close> is the scheduler after both were added.\<close>

definition jobA1 :: CronJob where
  "jobA1 = \<lparr>ID = ''a'', Name = ''A'', Schedule = ''* * * * *'', JobEnabled = True, Primary = hookA,
     Secondary = None, SaveOutput = False, Description = [], Reminders = []\<rparr>"

definition jobAB :: CronJob where
  "jobAB = \<lparr>ID = ''a_b'', Name = ''B'', Schedule = ''* * * * *'', JobEnabled = True, Primary = hookA,
     Secondary = None, SaveOutput = False, Description = [], Reminders = [reminderAt 200]\<rparr>"

definition stateAB :: Scheduler where
  "stateAB = snd (AddJob worldOK jobAB (snd (AddJob worldOK jobA1 (New [jobA1, jobAB]))))"


text \<open>
  A world whose network answers with a JSON object, whose \<open>json.Unmarshal\<close> knows that
  object, and whose \<open>gojq\<close> knows four selectors: one that reads the field \<open>status\<close>, one
  that does not parse, one that yields nothing, and one that raises an error.
\<close>

definition statusDoc :: json where
  "statusDoc = JObject [(''status'', JString ''ok'')]"

definition worldStatus :: world where
  \<open>worldStatus = \<lparr>NewRequest_ok = (\<lambda>m u. True), CanonicalHeaderKey = (\<lambda>k. k),
     http_Do = (\<lambda>hist req. Response 200 ''{"status":"ok"}''),
     json_Unmarshal = (\<lambda>s. if s = ''{"status":"ok"}'' then Some statusDoc else None),
     json_Marshal = (\<lambda>v. None), Sprintf_v = (\<lambda>v. ''?''),
     gojq_Parse = (\<lambda>s. if s = ''.['' then None else Some (Query s)),
     gojq_Run = (\<lambda>q d. case q of Query s \<Rightarrow>
        if s = ''.status'' then
          (case d of
             JObject kvs \<Rightarrow> (case map_of kvs ''status'' of Some v \<Rightarrow> [Inr v] | None \<Rightarrow> [Inr JNull])
           | _ \<Rightarrow> [Inl ''cannot index''])
        else if s = ''empty'' then []
        else [Inl ''error'']),
     cron_Parse_ok = (\<lambda>s. True),
     Now = (\<lambda>k. 0), range_seed = (\<lambda>vs. 0), WriteFile_ok = (\<lambda>js. True)\<rparr>\<close>

definition selectors4 :: "(string \<times> string) list" where
  "selectors4 = [(''s'', ''.status''), (''bad'', ''.[''), (''none'', ''empty''), (''err'', ''.status | error'')]"



text \<open>Variables for the template engine, and a world whose \<open>json.Marshal\<close> refuses a
  number that is not finite.\<close>

definition varsXY :: "(string \<times> json) list" where
  "varsXY = [(''x'', JString ''1''), (''y'', JNumber (NumInt 2))]"

definition worldMarshal :: world where
  "worldMarshal = worldOK\<lparr>
     json_Marshal := (\<lambda>v. case v of JNumber NumNaN \<Rightarrow> None | JNull \<Rightarrow> Some ''null'' | _ \<Rightarrow> Some ''0''),
     Sprintf_v := (\<lambda>v. ''NaN'')\<rparr>"

definition varsQuote :: "(string \<times> json) list" where
  \<open>varsQuote = [(''x'', JString ''a"b''), (''n'', JNumber NumNaN)]\<close>

text \<open>
  A world whose \<open>gojq\<close> yields, for one more selector, an error and then the number 7.
\<close>

definition worldErrorFirst :: world where
  "worldErrorFirst = worldStatus\<lparr>
     gojq_Run := (\<lambda>q d. case q of Query s \<Rightarrow>
        if s = ''(.status | error), 7'' then [Inl ''error'', Inr (JNumber (NumInt 7))]
        else gojq_Run worldStatus q d)\<rparr>"

text \<open>
  A world whose clock reads 100, 200, 300 and so on, and the job \<open>a\<close> with its one reminder
  \<open>r\<close> due at a given instant.
\<close>

definition worldClock :: world where
  "worldClock = worldOK\<lparr>Now := (\<lambda>k. 100 + 100 * int k)\<rparr>"

definition jobAt :: "int \<Rightarrow> CronJob" where
  "jobAt t = jobR\<lparr>Reminders := [reminderAt t]\<rparr>"

text \<open>
  A run in which adding a job overlaps the execution of a reminder. The job \<open>a\<close> is added
  with the reminder \<open>r\<close> due at 150 (\<open>overlap1\<close>). Its timer fires, and \<open>executeReminder\<close>
  makes its calls (\<open>overlap2\<close>). Before the cleanup of that execution takes the lock, the job
  is added again, its reminder \<open>r\<close> now due at 400 (\<open>overlap3\<close>). The cleanup of the
  execution follows (\<open>overlap4\<close>), and the job is added once more (\<open>overlap5\<close>).
\<close>

definition overlap1 :: Scheduler where
  "overlap1 = snd (AddJob worldClock (jobAt 150) (New [jobAt 150]))"

definition overlap2 :: Scheduler where
  "overlap2 = reminderCalls worldClock (jobAt 150) (reminderAt 150)
     (overlap1\<lparr>timers := AList.delete 1 (timers overlap1)\<rparr>)"

definition overlap3 :: Scheduler where
  "overlap3 = snd (AddJob worldClock (jobAt 400) overlap2)"

definition overlap4 :: Scheduler where
  "overlap4 = cleanupReminder worldClock (jobAt 150) (reminderAt 150) overlap3"

definition overlap5 :: Scheduler where
  "overlap5 = snd (AddJob worldClock (jobAt 400) overlap4)"

text \<open>A job with two reminders under one id, both in the future.\<close>

definition jobDup :: CronJob where
  "jobDup = jobR\<lparr>Reminders := [reminderAt 200, reminderAt 300]\<rparr>"
section \<open>Properties of the webhook executor and of a job firing\<close>

lemma executeWebhook_state:
  "snd (executeWebhook w webhook s) =
     s\<lparr>sent := sent s @ (if NewRequest_ok w (Method webhook) (URL webhook)
                           then [buildRequest w webhook] else [])\<rparr>"
  by (simp add: executeWebhook_def Let_def split: outcome.splits)

text \<open>
  Claim C1. A response with status 400 or more makes \<open>executeWebhook\<close> fail with the error
  that carries the status code and the response body. When the primary webhook of a firing
  fails, for whatever reason, \<open>executeJob\<close> stops: the state it returns differs from the
  state it started in only by the primary request (when one could be built) at the end of the
  requests sent, so the output cache is as it was and no secondary request was sent.
\<close>

theorem primary_failure_stops:
  "(NewRequest_ok w (Method webhook) (URL webhook) \<and>
    http_Do w (sent s) (buildRequest w webhook) = Response statusCode responseBody \<and>
    400 \<le> statusCode \<longrightarrow>
      fst (executeWebhook w webhook s) = Inl (WebhookStatusError statusCode responseBody)) \<and>
   (fst (executeWebhook w (Primary job) s) = Inl err \<longrightarrow>
      executeJob w job s =
        s\<lparr>sent := sent s @ (if NewRequest_ok w (Method (Primary job)) (URL (Primary job))
                              then [buildRequest w (Primary job)] else [])\<rparr>)"
proof (intro conjI impI)
  assume "NewRequest_ok w (Method webhook) (URL webhook) \<and>
    http_Do w (sent s) (buildRequest w webhook) = Response statusCode responseBody \<and>
    400 \<le> statusCode"
  then show "fst (executeWebhook w webhook s) = Inl (WebhookStatusError statusCode responseBody)"
    by (simp add: executeWebhook_def Let_def)
next
  assume failed: "fst (executeWebhook w (Primary job) s) = Inl err"
  obtain r s1 where run: "executeWebhook w (Primary job) s = (r, s1)"
    by (cases "executeWebhook w (Primary job) s")
  with failed have "r = Inl err" by simp
  with run have "executeJob w job s = s1"
    by (simp add: executeJob_def)
  moreover from run have "s1 = snd (executeWebhook w (Primary job) s)" by simp
  ultimately show "executeJob w job s =
        s\<lparr>sent := sent s @ (if NewRequest_ok w (Method (Primary job)) (URL (Primary job))
                              then [buildRequest w (Primary job)] else [])\<rparr>"
    by (simp only: executeWebhook_state)
qed

theorem primary_failure_stops_witness:
  "(NewRequest_ok world500 (Method (Primary jobA)) (URL (Primary jobA)) \<and>
    http_Do world500 (sent (New [jobA])) (buildRequest world500 (Primary jobA)) = Response 500 ''boom'' \<and>
    (400::int) \<le> 500) \<and>
   fst (executeWebhook world500 (Primary jobA) (New [jobA])) = Inl (WebhookStatusError 500 ''boom'') \<and>
   executeJob world500 jobA (New [jobA]) =
     (New [jobA])\<lparr>sent := sent (New [jobA]) @
        (if NewRequest_ok world500 (Method (Primary jobA)) (URL (Primary jobA))
         then [buildRequest world500 (Primary jobA)] else [])\<rparr>"
proof -
  note T = primary_failure_stops [of world500 "Primary jobA" "New [jobA]" 500 "''boom''" jobA
      "WebhookStatusError 500 ''boom''"]
  have a: "NewRequest_ok world500 (Method (Primary jobA)) (URL (Primary jobA)) \<and>
    http_Do world500 (sent (New [jobA])) (buildRequest world500 (Primary jobA)) = Response 500 ''boom'' \<and>
    (400::int) \<le> 500"
    by (simp add: world500_def)
  note b = T [THEN conjunct1, THEN mp, OF a]
  note c = T [THEN conjunct2, THEN mp, OF b]
  show ?thesis
    by (rule conjI [OF a conjI [OF b c]])
qed

section \<open>Properties of scheduleReminder\<close>

lemma Sub_nonneg: "u \<le> t \<Longrightarrow> 0 \<le> Sub t u"
  by (simp add: Sub_def Let_def minDuration_def maxDuration_def)

text \<open>
  Claim C3, as stated, fails when the reminder's instant equals the current time: the test
  \<open>Before\<close> is strict, so \<open>scheduleReminder\<close> installs a timer (of duration zero) under the
  key of the job and the reminder.
\<close>

theorem scheduleReminder_now_counterexample:
  "Datetime (reminderAt 100) = Now worldOK (ticks (New [jobR])) \<and>
   timers (scheduleReminder worldOK jobR (reminderAt 100) (New [jobR])) =
     [(1, 100, jobR, reminderAt 100)] \<and>
   map_of (reminders (scheduleReminder worldOK jobR (reminderAt 100) (New [jobR]))) ''a_r'' = Some 1"
  by (simp add: scheduleReminder_def worldOK_def reminderAt_def New_def Sub_def Let_def
      minDuration_def maxDuration_def reminderKey_def jobR_def)

text \<open>
  Claim C3, amended. A reminder whose instant is strictly before the current time gets no
  timer: the pending timers, the map of reminders and the repository stay as they are. A
  reminder whose instant is the current time or later gets one new pending timer, which
  fires no earlier than now, registered under the key built from the job id and the
  reminder id; the repository stays as it is.
\<close>

theorem scheduleReminder_cases:
  "(Datetime reminder < Now w (ticks s) \<longrightarrow>
      timers (scheduleReminder w job reminder s) = timers s \<and>
      reminders (scheduleReminder w job reminder s) = reminders s \<and>
      config (scheduleReminder w job reminder s) = config s) \<and>
   (Now w (ticks s) \<le> Datetime reminder \<longrightarrow>
      (\<exists>at. Now w (ticks s) \<le> at \<and>
         timers (scheduleReminder w job reminder s) =
           timers s @ [(Suc (nextTimer s), at, job, reminder)]) \<and>
      map_of (reminders (scheduleReminder w job reminder s))
        (reminderKey (ID job) (ReminderID reminder)) = Some (Suc (nextTimer s)) \<and>
      config (scheduleReminder w job reminder s) = config s)"
proof (intro conjI impI)
  assume "Now w (ticks s) \<le> Datetime reminder"
  then show "\<exists>at. Now w (ticks s) \<le> at \<and>
         timers (scheduleReminder w job reminder s) =
           timers s @ [(Suc (nextTimer s), at, job, reminder)]"
    using Sub_nonneg [of "Now w (ticks s)" "Datetime reminder"]
    by (simp add: scheduleReminder_def Let_def)
qed (simp_all add: scheduleReminder_def Let_def update_Some_unfold)

theorem scheduleReminder_cases_witness:
  "(Datetime (reminderAt 99) < Now worldOK (ticks (New [jobR])) \<and>
    timers (scheduleReminder worldOK jobR (reminderAt 99) (New [jobR])) = timers (New [jobR]) \<and>
    reminders (scheduleReminder worldOK jobR (reminderAt 99) (New [jobR])) = reminders (New [jobR]) \<and>
    config (scheduleReminder worldOK jobR (reminderAt 99) (New [jobR])) = config (New [jobR])) \<and>
   (Now worldOK (ticks (New [jobR])) \<le> Datetime (reminderAt 101) \<and>
    map_of (reminders (scheduleReminder worldOK jobR (reminderAt 101) (New [jobR])))
        (reminderKey (ID jobR) (ReminderID (reminderAt 101))) = Some (Suc (nextTimer (New [jobR]))))"
proof -
  have past: "Datetime (reminderAt 99) < Now worldOK (ticks (New [jobR]))"
    by (simp add: reminderAt_def worldOK_def)
  have future: "Now worldOK (ticks (New [jobR])) \<le> Datetime (reminderAt 101)"
    by (simp add: reminderAt_def worldOK_def)
  note a = scheduleReminder_cases [of "reminderAt 99" worldOK "New [jobR]" jobR,
      THEN conjunct1, THEN mp, OF past]
  note b = scheduleReminder_cases [of "reminderAt 101" worldOK "New [jobR]" jobR,
      THEN conjunct2, THEN mp, OF future, THEN conjunct2, THEN conjunct1]
  show ?thesis
    by (rule conjI [OF conjI [OF past a] conjI [OF future b]])
qed

section \<open>A firing that does not save its output\<close>

text \<open>
  Claim C5, as stated, fails on the body template: with \<open>SaveOutput\<close> false the secondary
  webhook is sent as configured, so the body of the request is \<open>Body\<close> even when a template
  is present (here the template \<open>t\<close> would render to \<open>t\<close>, and the body sent is \<open>b\<close>).
\<close>

theorem secondary_template_counterexample:
  "\<not> SaveOutput jobT \<and>
   Secondary jobT = Some hookT \<and>
   BodyTemplate hookT = ''t'' \<and>
   processTemplate worldOK (BodyTemplate hookT) [] = Inr ''t'' \<and>
   map req_Body (sent (executeJob worldOK jobT (New [jobT]))) = [Some ''x'', Some ''b'']"
  by (simp add: jobT_def hookT_def hookA_def processTemplate_def worldOK_def executeJob_def
      executeWebhook_def buildRequest_def New_def Let_def)

text \<open>
  Claim C5, amended. When the primary webhook of a firing succeeds, the job does not save
  its output and the secondary webhook is enabled, then the firing changes nothing but the
  requests sent: the primary request, then the request built from the secondary
  configuration as it is (when one can be built). The body of that request is the \<open>Body\<close>
  of the configuration (none when it is empty): no variable is extracted and the body
  template is not rendered.
\<close>

theorem secondary_without_saved_output:
  assumes "fst (executeWebhook w (Primary job) s) = Inr output"
    and "\<not> SaveOutput job" and "Secondary job = Some sec" and "Enabled sec"
  shows "executeJob w job s =
           s\<lparr>sent := sent s @ buildRequest w (Primary job) #
                (if NewRequest_ok w (Method sec) (URL sec) then [buildRequest w sec] else [])\<rparr> \<and>
         req_Body (buildRequest w sec) = (if Body sec = [] then None else Some (Body sec))"
proof -
  obtain r s1 where run: "executeWebhook w (Primary job) s = (r, s1)"
    by (cases "executeWebhook w (Primary job) s")
  with assms(1) have r: "r = Inr output" by simp
  have ok: "NewRequest_ok w (Method (Primary job)) (URL (Primary job))"
    using assms(1) by (auto simp: executeWebhook_def split: if_splits)
  have s1: "s1 = s\<lparr>sent := sent s @ [buildRequest w (Primary job)]\<rparr>"
    using executeWebhook_state [of w "Primary job" s] run ok by simp
  have "executeJob w job s = snd (executeWebhook w sec s1)"
    using run r assms(2-4) by (simp add: executeJob_def)
  then show ?thesis
    by (simp add: executeWebhook_state s1 buildRequest_def)
qed

theorem secondary_without_saved_output_witness:
  "executeJob worldOK jobT (New [jobT]) =
     (New [jobT])\<lparr>sent := sent (New [jobT]) @ buildRequest worldOK (Primary jobT) #
        (if NewRequest_ok worldOK (Method hookT) (URL hookT)
         then [buildRequest worldOK hookT] else [])\<rparr> \<and>
   req_Body (buildRequest worldOK hookT) = (if Body hookT = [] then None else Some (Body hookT))"
proof -
  have a: "fst (executeWebhook worldOK (Primary jobT) (New [jobT])) = Inr ''out''"
    by (simp add: executeWebhook_def worldOK_def Let_def)
  have b: "\<not> SaveOutput jobT" by (simp add: jobT_def)
  have c: "Secondary jobT = Some hookT" by (simp add: jobT_def)
  have d: "Enabled hookT" by (simp add: hookT_def hookA_def)
  show ?thesis
    by (rule secondary_without_saved_output [OF a b c d])
qed

section \<open>Removing a job\<close>

lemma stateAB_eq:
  "stateAB = \<lparr>cron = [(1, jobA1), (2, jobAB)], nextID = 2, jobs = [(''a'', 1), (''a_b'', 2)],
     config = [jobA1, jobAB], outputs = [], reminders = [(''a_b_r'', 1)],
     timers = [(1, 200, jobAB, reminderAt 200)], nextTimer = 1, sent = [],
     disk = [jobA1, jobAB], ticks = 1\<rparr>"
  by (simp add: stateAB_def AddJob_def New_def removeJobReminders_def worldOK_def
      scheduleReminder_def Let_def reminderKey_def Sub_def minDuration_def maxDuration_def
      jobA1_def jobAB_def reminderAt_def)

text \<open>
  Claim C10 does not hold of the code. With the jobs \<open>a\<close> and \<open>a_b\<close> added, the job \<open>a_b\<close>
  has one pending timer, under the key \<open>a_b_r\<close>. Removing the job \<open>a\<close> stops every timer
  whose key begins with \<open>a_\<close>: the timer of \<open>a_b\<close> is gone, though its trigger remains.
\<close>

theorem RemoveJob_cancels_timer_of_other_job:
  "ID jobA1 = ''a'' \<and> ID jobAB = ''a_b'' \<and>
   timers stateAB = [(1, 200, jobAB, reminderAt 200)] \<and>
   reminders stateAB = [(''a_b_r'', 1)] \<and>
   timers (snd (RemoveJob ''a'' stateAB)) = [] \<and>
   reminders (snd (RemoveJob ''a'' stateAB)) = [] \<and>
   cron (snd (RemoveJob ''a'' stateAB)) = [(2, jobAB)]"
  by (simp add: stateAB_eq RemoveJob_def removeJobReminders_def HasPrefix_def Let_def
      jobA1_def jobAB_def)

section \<open>A reminder that fires\<close>

lemma executeWebhook_fields:
  "config (snd (executeWebhook w webhook s)) = config s"
  "reminders (snd (executeWebhook w webhook s)) = reminders s"
  "timers (snd (executeWebhook w webhook s)) = timers s"
  "disk (snd (executeWebhook w webhook s)) = disk s"
  "outputs (snd (executeWebhook w webhook s)) = outputs s"
  "cron (snd (executeWebhook w webhook s)) = cron s"
  "jobs (snd (executeWebhook w webhook s)) = jobs s"
  "nextID (snd (executeWebhook w webhook s)) = nextID s"
  "nextTimer (snd (executeWebhook w webhook s)) = nextTimer s"
  by (simp_all add: executeWebhook_state)









section \<open>Properties of extractVariables\<close>

lemma firstResult_errors: "firstResult (map Inl errs) = None"
  by (induction errs) simp_all

lemma firstResult_value: "firstResult (map Inl errs @ Inr v # rest) = Some v"
  by (induction errs) simp_all

lemma extractLoop_map_of:
  "distinct (map fst selectors) \<Longrightarrow>
   map_of (extractLoop w data selectors variables) varName =
     (case map_of selectors varName of
        None \<Rightarrow> map_of variables varName
      | Some selector \<Rightarrow>
          (case (case gojq_Parse w selector of None \<Rightarrow> None | Some q \<Rightarrow> firstResult (gojq_Run w q data)) of
             None \<Rightarrow> map_of variables varName
           | Some v \<Rightarrow> Some v))"
proof (induction selectors arbitrary: variables varName)
  case Nil
  then show ?case by simp
next
  case (Cons p selectors)
  obtain n sel where p: "p = (n, sel)" by (cases p)
  from Cons.prems p have d: "distinct (map fst selectors)" and n: "n \<notin> fst ` set selectors"
    by auto
  from n have none: "map_of selectors n = None"
    by (simp add: map_of_eq_None_iff)
  have IH: "map_of (extractLoop w data selectors vars) x =
     (case map_of selectors x of
        None \<Rightarrow> map_of vars x
      | Some selector \<Rightarrow>
          (case (case gojq_Parse w selector of None \<Rightarrow> None | Some q \<Rightarrow> firstResult (gojq_Run w q data)) of
             None \<Rightarrow> map_of vars x
           | Some v \<Rightarrow> Some v))" for vars x
    by (rule Cons.IH [OF d])
  show ?case
    using none by (auto simp: p IH update_conv' split: option.splits)
qed

lemma extractLoop_distinct:
  "distinct (map fst variables) \<Longrightarrow> distinct (map fst (extractLoop w data selectors variables))"
  by (induction selectors arbitrary: variables) (auto simp: distinct_update split: option.splits)

text \<open>
  Claim C7, as stated, fails for a selector whose run yields an error and then a value: the
  error is logged and the loop goes on to the next result, so the selector is not skipped,
  and the value bound to its name is not the first result the run yielded.
\<close>

theorem error_then_value_counterexample:
  \<open>gojq_Parse worldErrorFirst ''(.status | error), 7'' = Some (Query ''(.status | error), 7'') \<and>
   gojq_Run worldErrorFirst (Query ''(.status | error), 7'') statusDoc =
     [Inl ''error'', Inr (JNumber (NumInt 7))] \<and>
   extractVariables worldErrorFirst ''{"status":"ok"}'' [(''n'', ''(.status | error), 7'')] =
     Inr [(''n'', JNumber (NumInt 7))]\<close>
  by (simp add: extractVariables_def worldErrorFirst_def worldStatus_def)

text \<open>
  Claim C7, amended. With at least one selector (the names distinct, as the keys of a map
  are) and an input that parses as JSON, \<open>extractVariables\<close> returns a mapping, and no
  selector stands in the way of another: for each selector on its own, a selector that does
  not parse leaves its name absent; a selector whose run yields nothing, or yields errors
  only, leaves its name absent; otherwise the name is bound to the first result of the run
  that is not an error (the errors before it are passed over), and to nothing else. A name
  that is not among the selectors is absent.
\<close>

theorem extractVariables_selectors:
  assumes "selectors \<noteq> []" and "distinct (map fst selectors)"
    and "json_Unmarshal w jsonData = Some data"
  shows "\<exists>variables. extractVariables w jsonData selectors = Inr variables \<and>
     distinct (map fst variables) \<and>
     (\<forall>varName. varName \<notin> fst ` set selectors \<longrightarrow> map_of variables varName = None) \<and>
     (\<forall>(varName, selector) \<in> set selectors.
        (gojq_Parse w selector = None \<longrightarrow> map_of variables varName = None) \<and>
        (\<forall>q. gojq_Parse w selector = Some q \<longrightarrow>
           (gojq_Run w q data = [] \<longrightarrow> map_of variables varName = None) \<and>
           (\<forall>errs. gojq_Run w q data = map Inl errs \<longrightarrow> map_of variables varName = None) \<and>
           (\<forall>errs v rest. gojq_Run w q data = map Inl errs @ Inr v # rest \<longrightarrow>
              map_of variables varName = Some v)))"
proof -
  let ?vars = "extractLoop w data selectors []"
  have run: "extractVariables w jsonData selectors = Inr ?vars"
    using assms(1,3) by (simp add: extractVariables_def)
  have at: "map_of ?vars varName =
     (case map_of selectors varName of None \<Rightarrow> None | Some selector \<Rightarrow> (case gojq_Parse w selector of None \<Rightarrow> None | Some q \<Rightarrow> firstResult (gojq_Run w q data)))"
    for varName
    by (simp add: extractLoop_map_of [OF assms(2)] split: option.splits)
  have absent: "map_of ?vars varName = None" if "varName \<notin> fst ` set selectors" for varName
    using that by (simp add: at map_of_eq_None_iff [THEN iffD2])
  have present: "map_of ?vars varName = (case gojq_Parse w selector of None \<Rightarrow> None | Some q \<Rightarrow> firstResult (gojq_Run w q data))"
    if "(varName, selector) \<in> set selectors" for varName selector
    using that assms(2) by (simp add: at)
  have each: "(gojq_Parse w selector = None \<longrightarrow> map_of ?vars varName = None) \<and>
        (\<forall>q. gojq_Parse w selector = Some q \<longrightarrow>
           (gojq_Run w q data = [] \<longrightarrow> map_of ?vars varName = None) \<and>
           (\<forall>errs. gojq_Run w q data = map Inl errs \<longrightarrow> map_of ?vars varName = None) \<and>
           (\<forall>errs v rest. gojq_Run w q data = map Inl errs @ Inr v # rest \<longrightarrow>
              map_of ?vars varName = Some v))"
    if "(varName, selector) \<in> set selectors" for varName selector
    by (auto simp: present [OF that] firstResult_errors firstResult_value)
  have dist: "distinct (map fst ?vars)"
    by (rule extractLoop_distinct) simp
  show ?thesis
  proof (intro exI [of _ ?vars] conjI)
    show "\<forall>varName. varName \<notin> fst ` set selectors \<longrightarrow> map_of ?vars varName = None"
      using absent by blast
    show "\<forall>(varName, selector) \<in> set selectors.
        (gojq_Parse w selector = None \<longrightarrow> map_of ?vars varName = None) \<and>
        (\<forall>q. gojq_Parse w selector = Some q \<longrightarrow>
           (gojq_Run w q data = [] \<longrightarrow> map_of ?vars varName = None) \<and>
           (\<forall>errs. gojq_Run w q data = map Inl errs \<longrightarrow> map_of ?vars varName = None) \<and>
           (\<forall>errs v rest. gojq_Run w q data = map Inl errs @ Inr v # rest \<longrightarrow>
              map_of ?vars varName = Some v))"
      using each by (intro ballI) (simp only: split_paired_all prod.case, blast)
  qed (rule run, rule dist)
qed


theorem extractVariables_selectors_witness:
  \<open>\<exists>variables. extractVariables worldStatus ''{"status":"ok"}'' selectors4 = Inr variables \<and>
     map_of variables ''s'' = Some (JString ''ok'') \<and>
     map_of variables ''bad'' = None \<and>
     map_of variables ''none'' = None \<and>
     map_of variables ''err'' = None \<and>
     map_of variables ''other'' = None\<close>
proof -
  have a: "selectors4 \<noteq> []" by (simp add: selectors4_def)
  have b: "distinct (map fst selectors4)" by (simp add: selectors4_def)
  have c: \<open>json_Unmarshal worldStatus ''{"status":"ok"}'' = Some statusDoc\<close>
    by (simp add: worldStatus_def)
  from extractVariables_selectors [OF a b c] obtain variables where
    run: \<open>extractVariables worldStatus ''{"status":"ok"}'' selectors4 = Inr variables\<close> and
    absent: "\<forall>varName. varName \<notin> fst ` set selectors4 \<longrightarrow> map_of variables varName = None" and
    each: "\<forall>(varName, selector) \<in> set selectors4.
        (gojq_Parse worldStatus selector = None \<longrightarrow> map_of variables varName = None) \<and>
        (\<forall>q. gojq_Parse worldStatus selector = Some q \<longrightarrow>
           (gojq_Run worldStatus q statusDoc = [] \<longrightarrow> map_of variables varName = None) \<and>
           (\<forall>errs. gojq_Run worldStatus q statusDoc = map Inl errs \<longrightarrow> map_of variables varName = None) \<and>
           (\<forall>errs v rest. gojq_Run worldStatus q statusDoc = map Inl errs @ Inr v # rest \<longrightarrow>
              map_of variables varName = Some v))"
    by blast
  have parse: "gojq_Parse worldStatus ''.status'' = Some (Query ''.status'')"
    "gojq_Parse worldStatus ''.['' = None"
    "gojq_Parse worldStatus ''empty'' = Some (Query ''empty'')"
    "gojq_Parse worldStatus ''.status | error'' = Some (Query ''.status | error'')"
    by (simp_all add: worldStatus_def)
  have run_s: "gojq_Run worldStatus (Query ''.status'') statusDoc = map Inl [] @ Inr (JString ''ok'') # []"
    by (simp add: worldStatus_def statusDoc_def)
  have run_none: "gojq_Run worldStatus (Query ''empty'') statusDoc = []"
    by (simp add: worldStatus_def)
  have run_err: "gojq_Run worldStatus (Query ''.status | error'') statusDoc = map Inl [''error'']"
    by (simp add: worldStatus_def)
  have each': "(gojq_Parse worldStatus selector = None \<longrightarrow> map_of variables varName = None) \<and>
        (\<forall>q. gojq_Parse worldStatus selector = Some q \<longrightarrow>
           (gojq_Run worldStatus q statusDoc = [] \<longrightarrow> map_of variables varName = None) \<and>
           (\<forall>errs. gojq_Run worldStatus q statusDoc = map Inl errs \<longrightarrow> map_of variables varName = None) \<and>
           (\<forall>errs v rest. gojq_Run worldStatus q statusDoc = map Inl errs @ Inr v # rest \<longrightarrow>
              map_of variables varName = Some v))"
    if "(varName, selector) \<in> set selectors4" for varName selector
    using bspec [OF each that] by simp
  have mem: "(''s'', ''.status'') \<in> set selectors4" "(''bad'', ''.['') \<in> set selectors4"
    "(''none'', ''empty'') \<in> set selectors4" "(''err'', ''.status | error'') \<in> set selectors4"
    by (simp_all add: selectors4_def)
  note s = each' [OF mem(1), THEN conjunct2, THEN spec, THEN mp, OF parse(1), THEN conjunct2,
      THEN conjunct2, THEN spec, THEN spec, THEN spec, THEN mp, OF run_s]
  note bad = each' [OF mem(2), THEN conjunct1, THEN mp, OF parse(2)]
  note none = each' [OF mem(3), THEN conjunct2, THEN spec, THEN mp, OF parse(3), THEN conjunct1,
      THEN mp, OF run_none]
  note err = each' [OF mem(4), THEN conjunct2, THEN spec, THEN mp, OF parse(4), THEN conjunct2,
      THEN conjunct1, THEN spec, THEN mp, OF run_err]
  have other: "map_of variables ''other'' = None"
    using absent by (simp add: selectors4_def)
  from run s bad none err other show ?thesis by blast
qed


section \<open>A firing that chains the saved output into the secondary webhook\<close>









section \<open>Properties of ReplaceAll, Contains and the loop over the variables\<close>

lemma ReplaceAll_char:
  "ReplaceAll s [a] new = concat (map (\<lambda>c. if c = a then new else [c]) s)"
  by (induction s) auto

lemma ReplaceAll_skip:
  "c0 \<notin> set pre \<Longrightarrow> ReplaceAll (pre @ s) (c0 # rest) new = pre @ ReplaceAll s (c0 # rest) new"
  by (induction pre) auto

lemma ReplaceAll_here:
  "old \<noteq> [] \<Longrightarrow> ReplaceAll (old @ s) old new = new @ ReplaceAll s old new"
  by (cases old) simp_all

lemma ReplaceAll_plain:
  "c0 \<notin> set s \<Longrightarrow> ReplaceAll s (c0 # rest) new = s"
  using ReplaceAll_skip [of c0 s "[]" rest new] by simp

lemma Contains_skip:
  "c0 \<notin> set pre \<Longrightarrow> Contains (pre @ s) (c0 # rest) = Contains s (c0 # rest)"
  by (induction pre) auto

lemma Contains_here: "Contains (old @ s) old"
proof (cases "old @ s")
  case Nil
  then show ?thesis by simp
next
  case (Cons c rest)
  have "prefix old (old @ s)" by simp
  with Cons show ?thesis by simp
qed

lemma Contains_plain: "c0 \<notin> set s \<Longrightarrow> \<not> Contains s (c0 # rest)"
  by (induction s) auto

lemma ReplaceAll_absent:
  "old \<noteq> [] \<Longrightarrow> \<not> Contains s old \<Longrightarrow> ReplaceAll s old new = s"
  by (induction s) auto

lemma placeholder_Cons: "placeholder k = CHR ''{'' # CHR ''{'' # k @ ''}}''"
  by (simp add: placeholder_def)

lemma prefix_names_eq:
  "CHR ''}'' \<notin> set k \<Longrightarrow> CHR ''}'' \<notin> set n \<Longrightarrow>
   prefix (k @ CHR ''}'' # r) (n @ CHR ''}'' # r') \<Longrightarrow> k = n"
proof (induction k arbitrary: n)
  case Nil
  then show ?case by (cases n) auto
next
  case (Cons a k)
  then show ?case by (cases n) auto
qed

lemma no_straddle:
  assumes k: "braceFree k" and a: "a \<noteq> []"
    and p: "prefix (placeholder k) (a @ placeholder n @ b)"
  shows "prefix (placeholder k) a"
proof (rule ccontr)
  assume not: "\<not> prefix (placeholder k) a"
  with p obtain us where old: "placeholder k = a @ us" and us: "prefix us (placeholder n @ b)"
    by (auto simp: prefix_append)
  from not old have "us \<noteq> []" by auto
  with us obtain us' where us': "us = CHR ''{'' # us'"
    by (cases us) (auto simp: placeholder_Cons)
  from a old obtain a' where ca: "a = CHR ''{'' # a'"
    by (cases a) (auto simp: placeholder_Cons)
  have tail: "CHR ''{'' # k @ ''}}'' = a' @ CHR ''{'' # us'"
    using old by (simp add: placeholder_Cons ca us')
  show False
  proof (cases a')
    case Nil
    with tail have "us' = k @ ''}}''" by simp
    with us us' have "prefix (CHR ''{'' # k @ ''}}'') (placeholder n @ b)" by simp
    then have "prefix (k @ ''}}'') (CHR ''{'' # n @ ''}}'' @ b)"
      by (simp add: placeholder_Cons)
    with k show False
      by (cases k) (auto simp: braceFree_def)
  next
    case (Cons d a'')
    with tail have "k @ ''}}'' = a'' @ CHR ''{'' # us'" by simp
    then have "CHR ''{'' \<in> set (k @ ''}}'')" by simp
    with k show False by (auto simp: braceFree_def)
  qed
qed

lemma ReplaceAll_unmatched:
  assumes k: "braceFree k" and n: "braceFree n" and kn: "k \<noteq> n"
  shows "ReplaceAll (placeholder n @ b) (placeholder k) new =
         placeholder n @ ReplaceAll b (placeholder k) new"
proof -
  let ?old = "CHR ''{'' # CHR ''{'' # k @ ''}}''"
  have one: "\<not> prefix ?old (CHR ''{'' # CHR ''{'' # n @ ''}}'' @ b)"
  proof
    assume "prefix ?old (CHR ''{'' # CHR ''{'' # n @ ''}}'' @ b)"
    then have "prefix (k @ CHR ''}'' # ''}'') (n @ CHR ''}'' # ''}'' @ b)"
      by simp
    with k n have "k = n"
      by (auto simp: braceFree_def dest: prefix_names_eq)
    with kn show False by simp
  qed
  have two: "\<not> prefix ?old (CHR ''{'' # n @ ''}}'' @ b)"
    using n by (cases n) (auto simp: braceFree_def)
  have three: "ReplaceAll (n @ ''}}'' @ b) ?old new = n @ ''}}'' @ ReplaceAll b ?old new"
    using n ReplaceAll_skip [of "CHR ''{''" "n @ ''}}''" b "CHR ''{'' # k @ ''}}''" new]
    by (simp add: braceFree_def)
  have "ReplaceAll (CHR ''{'' # CHR ''{'' # n @ ''}}'' @ b) ?old new =
      CHR ''{'' # ReplaceAll (CHR ''{'' # n @ ''}}'' @ b) ?old new"
    using one by (subst ReplaceAll.simps) simp
  also have "\<dots> = CHR ''{'' # CHR ''{'' # ReplaceAll (n @ ''}}'' @ b) ?old new"
    using two by (subst ReplaceAll.simps) simp
  also have "\<dots> = CHR ''{'' # CHR ''{'' # n @ ''}}'' @ ReplaceAll b ?old new"
    by (simp only: three)
  finally show ?thesis
    by (simp add: placeholder_Cons)
qed

lemma ReplaceAll_around:
  assumes k: "braceFree k" and n: "braceFree n" and kn: "k \<noteq> n"
  shows "ReplaceAll (a @ placeholder n @ b) (placeholder k) new =
         ReplaceAll a (placeholder k) new @ placeholder n @ ReplaceAll b (placeholder k) new"
proof (induction a rule: length_induct)
  case (1 a)
  show ?case
  proof (cases a)
    case Nil
    then show ?thesis
      by (simp add: ReplaceAll_unmatched [OF k n kn]) (simp add: placeholder_Cons)
  next
    case (Cons c a')
    have ne: "placeholder k \<noteq> []" by (simp add: placeholder_Cons)
    show ?thesis
    proof (cases "prefix (placeholder k) (a @ placeholder n @ b)")
      case True
      then have inside: "prefix (placeholder k) a"
        using no_straddle [OF k _ True] Cons by simp
      then obtain rest where a: "a = placeholder k @ rest"
        by (auto simp: prefix_def)
      have shorter: "length rest < length a"
        by (simp add: a placeholder_Cons)
      from 1 shorter have IH: "ReplaceAll (rest @ placeholder n @ b) (placeholder k) new =
         ReplaceAll rest (placeholder k) new @ placeholder n @ ReplaceAll b (placeholder k) new"
        by blast
      show ?thesis
        using ReplaceAll_here [OF ne, of "rest @ placeholder n @ b" new]
          ReplaceAll_here [OF ne, of rest new]
        by (simp add: a IH)
    next
      case False
      then have outside: "\<not> prefix (placeholder k) a"
        by (auto simp: prefix_append)
      from 1 Cons have IH: "ReplaceAll (a' @ placeholder n @ b) (placeholder k) new =
         ReplaceAll a' (placeholder k) new @ placeholder n @ ReplaceAll b (placeholder k) new"
        by simp
      from False outside show ?thesis
        by (simp add: Cons ne IH)
    qed
  qed
qed

lemma escapeJSON_chars: "escapeJSON str = concat (map spec_escapedChar str)"
  unfolding escapeJSON_def Let_def ReplaceAll_char
  by (induction str) (auto simp: spec_escapedChar_def)

text \<open>\<open>rangeOrder\<close> yields the entries in some order, whatever the number.\<close>

lemma mset_rangeOrder: "mset (rangeOrder n xs) = mset xs"
proof (induction xs arbitrary: n)
  case Nil
  then show ?case by simp
next
  case (Cons x xs)
  have "mset (take k ys) + mset (drop k ys) = mset ys" for k and ys :: "'a list"
    by (metis append_take_drop_id mset_append)
  with Cons show ?case by (simp add: Let_def)
qed

text \<open>Every order of the entries is the order chosen by some number.\<close>

lemma rangeOrder_any_order:
  "mset ys = mset xs \<Longrightarrow> \<exists>n. rangeOrder n xs = ys"
proof (induction xs arbitrary: ys)
  case Nil
  then show ?case by simp
next
  case (Cons x xs)
  from Cons.prems have "x \<in> set ys"
    by (metis list.set_intros(1) mset_eq_setD)
  then obtain as bs where ys: "ys = as @ x # bs"
    by (auto simp: in_set_conv_decomp)
  with Cons.prems have perm: "mset (as @ bs) = mset xs" by simp
  then obtain m where m: "rangeOrder m xs = as @ bs"
    using Cons.IH by blast
  from perm have len: "length as + length bs = length xs"
    by (metis length_append mset_eq_length)
  define n where "n = length as + m * Suc (length xs)"
  have small: "length as < Suc (length xs)" using len by simp
  have "n mod Suc (length xs) = length as" "n div Suc (length xs) = m"
    unfolding n_def using small
    by (simp_all only: mod_mult_self1 mod_mult_self3 mod_less div_mult_self3 div_mult_self1
        div_less add_0 Suc_neq_Zero not_False_eq_True)
  then have "rangeOrder n (x # xs) = ys"
    by (simp add: m ys Let_def)
  then show ?case by blast
qed

lemma set_rangeOrder: "set (rangeOrder n xs) = set xs"
  using mset_rangeOrder [of n xs] by (rule mset_eq_setD)

lemma distinct_rangeOrder:
  "distinct (map fst (rangeOrder n xs)) = distinct (map fst xs)"
proof -
  have "mset (map fst (rangeOrder n xs)) = mset (map fst xs)"
    by (simp add: mset_rangeOrder)
  then show ?thesis by (rule mset_eq_imp_distinct_iff)
qed

lemma braceFree_REMINDER: "braceFree ''REMINDER''"
  by (simp add: braceFree_def)

lemma reminderPlaceholder: "''{{REMINDER}}'' = placeholder ''REMINDER''"
  by (simp add: placeholder_def)

lemma otherVariables_step:
  "varName \<noteq> ''REMINDER'' \<Longrightarrow>
   otherVariables w result ((varName, v) # rest) =
   otherVariables w (ReplaceAll result (placeholder varName) (valueText w v)) rest"
  using ReplaceAll_absent [of "placeholder varName" result "valueText w v"]
  by (simp add: placeholder_Cons)

lemma otherVariables_plain: "CHR ''{'' \<notin> set r \<Longrightarrow> otherVariables w r vs = r"
  by (induction vs) (auto simp: placeholder_Cons Contains_plain)

lemma ReplaceAll_placeholder_plain:
  "CHR ''{'' \<notin> set r \<Longrightarrow> ReplaceAll r (placeholder k) new = r"
  by (simp add: placeholder_Cons ReplaceAll_plain)

lemma otherVariables_around:
  assumes "braceFree n" and "n \<notin> fst ` set vs" and "\<forall>k \<in> fst ` set vs. braceFree k"
  shows "otherVariables w (a @ placeholder n @ b) vs =
         otherVariables w a vs @ placeholder n @ otherVariables w b vs"
  using assms(2,3)
proof (induction vs arbitrary: a b)
  case Nil
  then show ?case by simp
next
  case (Cons p vs)
  obtain k v where p: "p = (k, v)" by (cases p)
  from Cons.prems p have k: "braceFree k" and kn: "k \<noteq> n"
    and rest: "n \<notin> fst ` set vs" "\<forall>k \<in> fst ` set vs. braceFree k"
    by auto
  show ?case
  proof (cases "k = ''REMINDER''")
    case True
    with Cons.IH [OF rest] show ?thesis by (simp add: p)
  next
    case False
    show ?thesis
      unfolding p otherVariables_step [OF False] ReplaceAll_around [OF k assms(1) kn]
      by (rule Cons.IH [OF rest])
  qed
qed

lemma processTemplate_eq:
  "processTemplate w templateStr variables =
     Inr (otherVariables w
       (ReplaceAll templateStr ''{{REMINDER}}''
          (case map_of variables ''REMINDER'' of Some v \<Rightarrow> valueText w v | None \<Rightarrow> []))
       (rangeOrder (range_seed w variables) variables))"
proof (cases "templateStr = []")
  case True
  then show ?thesis
    by (simp add: processTemplate_def otherVariables_plain)
next
  case False
  have "ReplaceAll templateStr ''{{REMINDER}}'' new = templateStr"
    if "\<not> Contains templateStr ''{{REMINDER}}''" for new
    using that by (rule ReplaceAll_absent [rotated]) simp
  with False show ?thesis
    by (auto simp: processTemplate_def Let_def split: option.splits)
qed

lemma processTemplate_around:
  assumes "braceFree name" and "name \<noteq> ''REMINDER''" and "name \<notin> fst ` set variables"
    and "\<forall>k \<in> fst ` set variables. braceFree k"
  shows "\<exists>ra rb. processTemplate w a variables = Inr ra \<and> processTemplate w b variables = Inr rb \<and>
     processTemplate w (a @ placeholder name @ b) variables = Inr (ra @ placeholder name @ rb)"
proof -
  let ?vs = "rangeOrder (range_seed w variables) variables"
  have vs: "name \<notin> fst ` set ?vs" "\<forall>k \<in> fst ` set ?vs. braceFree k"
    using assms(3,4) by (simp_all add: set_rangeOrder)
  show ?thesis
    unfolding processTemplate_eq reminderPlaceholder
      ReplaceAll_around [OF braceFree_REMINDER assms(1) assms(2) [symmetric]]
      otherVariables_around [OF assms(1) vs]
    by blast
qed

lemma processTemplate_REMINDER_absent:
  assumes "''REMINDER'' \<notin> fst ` set variables" and "CHR ''{'' \<notin> set a" and "CHR ''{'' \<notin> set b"
  shows "processTemplate w (a @ ''{{REMINDER}}'' @ b) variables = Inr (a @ b)"
proof -
  from assms(1) have none: "map_of variables ''REMINDER'' = None"
    by (simp add: map_of_eq_None_iff)
  have "ReplaceAll (a @ ''{{REMINDER}}'' @ b) ''{{REMINDER}}'' [] = a @ b"
    using ReplaceAll_skip [OF assms(2), of "''{{REMINDER}}'' @ b" "''{REMINDER}}''" "[]"]
      ReplaceAll_here [of "''{{REMINDER}}''" b "[]"]
      ReplaceAll_plain [OF assms(3), of "''{REMINDER}}''" "[]"]
    by simp
  then show ?thesis
    using assms(2,3) by (simp add: processTemplate_eq none otherVariables_plain)
qed

lemma ReplaceAll_taken_out:
  assumes k: "braceFree k"
  shows "ReplaceAll (a @ placeholder k @ b) (placeholder k) new =
         ReplaceAll a (placeholder k) new @ new @ ReplaceAll b (placeholder k) new"
proof (induction a rule: length_induct)
  case (1 a)
  have ne: "placeholder k \<noteq> []" by (simp add: placeholder_Cons)
  show ?case
  proof (cases a)
    case Nil
    have here: "ReplaceAll (placeholder k @ b) (placeholder k) new = new @ ReplaceAll b (placeholder k) new"
      by (rule ReplaceAll_here [OF ne])
    have "ReplaceAll [] (placeholder k) new = []"
      using ne by (simp only: ReplaceAll.simps if_False)
    then show ?thesis
      unfolding Nil by (simp only: append_Nil here)
  next
    case (Cons c a')
    show ?thesis
    proof (cases "prefix (placeholder k) (a @ placeholder k @ b)")
      case True
      have "a \<noteq> []" using Cons by simp
      then have inside: "prefix (placeholder k) a"
        using no_straddle [OF k _ True] by blast
      then obtain rest where a: "a = placeholder k @ rest"
        by (auto simp: prefix_def)
      have shorter: "length rest < length a"
        by (simp add: a placeholder_Cons)
      from 1 shorter have IH: "ReplaceAll (rest @ placeholder k @ b) (placeholder k) new =
         ReplaceAll rest (placeholder k) new @ new @ ReplaceAll b (placeholder k) new"
        by blast
      have "ReplaceAll (a @ placeholder k @ b) (placeholder k) new =
            ReplaceAll (placeholder k @ (rest @ placeholder k @ b)) (placeholder k) new"
        unfolding a by simp
      also have "\<dots> = new @ ReplaceAll (rest @ placeholder k @ b) (placeholder k) new"
        by (rule ReplaceAll_here [OF ne])
      also have "\<dots> = (new @ ReplaceAll rest (placeholder k) new) @ new @ ReplaceAll b (placeholder k) new"
        unfolding IH by simp
      also have "new @ ReplaceAll rest (placeholder k) new = ReplaceAll a (placeholder k) new"
        unfolding a by (rule ReplaceAll_here [OF ne, symmetric])
      finally show ?thesis .
    next
      case False
      then have outside: "\<not> prefix (placeholder k) a"
        using prefix_prefix [of "placeholder k" a "placeholder k @ b"] by blast
      from 1 Cons have IH: "ReplaceAll (a' @ placeholder k @ b) (placeholder k) new =
         ReplaceAll a' (placeholder k) new @ new @ ReplaceAll b (placeholder k) new"
        by simp
      from False outside show ?thesis
        by (simp add: Cons ne IH)
    qed
  qed
qed

lemma REMINDER_taken_out:
  "ReplaceAll (a @ ''{{REMINDER}}'' @ b) ''{{REMINDER}}'' new =
   ReplaceAll a ''{{REMINDER}}'' new @ new @ ReplaceAll b ''{{REMINDER}}'' new"
  unfolding reminderPlaceholder by (rule ReplaceAll_taken_out [OF braceFree_REMINDER])

lemma processTemplate_without_REMINDER:
  assumes "''REMINDER'' \<notin> fst ` set variables"
  shows "processTemplate w templateStr variables =
     Inr (otherVariables w (ReplaceAll templateStr ''{{REMINDER}}'' [])
            (rangeOrder (range_seed w variables) variables))"
proof -
  from assms have "map_of variables ''REMINDER'' = None"
    by (simp only: map_of_eq_None_iff not_False_eq_True)
  then show ?thesis
    by (simp only: processTemplate_eq option.case)
qed

lemma processTemplate_no_variables:
  "processTemplate w templateStr [] = Inr (ReplaceAll templateStr ''{{REMINDER}}'' [])"
  by (simp only: processTemplate_eq map_of.simps option.case rangeOrder.simps otherVariables.simps)

section \<open>Placeholders without a matching key\<close>

text \<open>
  Claim C8, as stated, fails for a key that contains braces: the placeholder of the key
  \<open>a}}{{b\<close> is the text \<open>{{a}}{{b}}\<close>, so the placeholders of \<open>a\<close> and \<open>b\<close>, neither of
  which is a key, do not stay in the output.
\<close>

theorem overlapping_key_counterexample:
  "''a'' \<notin> fst ` set [(''a}}{{b'', JString ''v'')] \<and>
   ''b'' \<notin> fst ` set [(''a}}{{b'', JString ''v'')] \<and>
   processTemplate worldOK ''{{a}}{{b}}'' [(''a}}{{b'', JString ''v'')] = Inr ''v''"
  by (simp add: processTemplate_def Let_def placeholder_def valueText_def escapeJSON_def)

text \<open>
  Claim C8, amended. \<open>processTemplate\<close> never returns an error. When the keys of the
  mapping contain no brace, a placeholder whose name contains no brace, is not
  \<open>REMINDER\<close> and is not a key stays in the output as it is, between the renderings of the
  text before it and of the text after it. When \<open>REMINDER\<close> is not a key, then for every
  template and whatever the keys are, every \<open>{{REMINDER}}\<close> of the template is replaced by
  the empty string: the output is what the loop over the other variables makes of the
  template from which each \<open>{{REMINDER}}\<close> has been taken out (taking it out of
  \<open>a @ ''{{REMINDER}}'' @ b\<close> joins what remains of \<open>a\<close> and of \<open>b\<close>), so with the empty
  mapping the output is the template without its \<open>{{REMINDER}}\<close>, and between two texts
  without braces the placeholder leaves nothing. In particular the template
  \<open>{{REMINDER}}\<close> with the empty mapping renders to the empty string.
\<close>

theorem unmatched_placeholders_stay:
  "(\<exists>r. processTemplate w templateStr variables = Inr r) \<and>
   (braceFree name \<and> name \<noteq> ''REMINDER'' \<and> name \<notin> fst ` set variables \<and>
    (\<forall>k \<in> fst ` set variables. braceFree k) \<longrightarrow>
      (\<exists>ra rb. processTemplate w a variables = Inr ra \<and> processTemplate w b variables = Inr rb \<and>
         processTemplate w (a @ placeholder name @ b) variables = Inr (ra @ placeholder name @ rb))) \<and>
   (''REMINDER'' \<notin> fst ` set variables \<longrightarrow>
      processTemplate w templateStr variables =
        Inr (otherVariables w (ReplaceAll templateStr ''{{REMINDER}}'' [])
               (rangeOrder (range_seed w variables) variables))) \<and>
   ReplaceAll (a @ ''{{REMINDER}}'' @ b) ''{{REMINDER}}'' [] =
     ReplaceAll a ''{{REMINDER}}'' [] @ ReplaceAll b ''{{REMINDER}}'' [] \<and>
   processTemplate w templateStr [] = Inr (ReplaceAll templateStr ''{{REMINDER}}'' []) \<and>
   (''REMINDER'' \<notin> fst ` set variables \<and> CHR ''{'' \<notin> set a \<and> CHR ''{'' \<notin> set b \<longrightarrow>
      processTemplate w (a @ ''{{REMINDER}}'' @ b) variables = Inr (a @ b)) \<and>
   processTemplate w ''{{REMINDER}}'' [] = Inr []"
proof (intro conjI impI)
  show "\<exists>r. processTemplate w templateStr variables = Inr r"
    by (simp add: processTemplate_eq)
  show "processTemplate w ''{{REMINDER}}'' [] = Inr []"
    using processTemplate_REMINDER_absent [of "[]" "[]" "[]" w] by simp
  show "processTemplate w templateStr [] = Inr (ReplaceAll templateStr ''{{REMINDER}}'' [])"
    by (rule processTemplate_no_variables)
  show "ReplaceAll (a @ ''{{REMINDER}}'' @ b) ''{{REMINDER}}'' [] =
     ReplaceAll a ''{{REMINDER}}'' [] @ ReplaceAll b ''{{REMINDER}}'' []"
    using REMINDER_taken_out [of a b "[]"] by simp
next
  assume "braceFree name \<and> name \<noteq> ''REMINDER'' \<and> name \<notin> fst ` set variables \<and>
    (\<forall>k \<in> fst ` set variables. braceFree k)"
  then show "\<exists>ra rb. processTemplate w a variables = Inr ra \<and> processTemplate w b variables = Inr rb \<and>
         processTemplate w (a @ placeholder name @ b) variables = Inr (ra @ placeholder name @ rb)"
    by (intro processTemplate_around) simp_all
next
  assume "''REMINDER'' \<notin> fst ` set variables"
  then show "processTemplate w templateStr variables =
        Inr (otherVariables w (ReplaceAll templateStr ''{{REMINDER}}'' [])
               (rangeOrder (range_seed w variables) variables))"
    by (rule processTemplate_without_REMINDER)
next
  assume "''REMINDER'' \<notin> fst ` set variables \<and> CHR ''{'' \<notin> set a \<and> CHR ''{'' \<notin> set b"
  then show "processTemplate w (a @ ''{{REMINDER}}'' @ b) variables = Inr (a @ b)"
    by (intro processTemplate_REMINDER_absent) simp_all
qed

theorem unmatched_placeholders_stay_witness:
  \<open>(braceFree ''z'' \<and> ''z'' \<noteq> ''REMINDER'' \<and> ''z'' \<notin> fst ` set varsXY \<and>
    list_all braceFree (map fst varsXY)) \<and>
   (\<exists>ra rb. processTemplate worldOK ''a={{x}} '' varsXY = Inr ra \<and>
      processTemplate worldOK '' b={{x}}'' varsXY = Inr rb \<and>
      processTemplate worldOK (''a={{x}} '' @ placeholder ''z'' @ '' b={{x}}'') varsXY =
        Inr (ra @ placeholder ''z'' @ rb)) \<and>
   (''REMINDER'' \<notin> fst ` set varsXY \<and> CHR ''{'' \<notin> set ''say: '' \<and> CHR ''{'' \<notin> set ''!'') \<and>
   processTemplate worldOK (''say: '' @ ''{{REMINDER}}'' @ ''!'') varsXY = Inr (''say: '' @ ''!'') \<and>
   processTemplate worldOK ''{"text":"{{REMINDER}}","x":{{x}}}'' varsXY = Inr ''{"text":"","x":1}''\<close>
proof -
  have keys: "\<forall>k \<in> fst ` set varsXY. braceFree k"
    by (simp add: varsXY_def braceFree_def)
  have a: "braceFree ''z'' \<and> ''z'' \<noteq> ''REMINDER'' \<and> ''z'' \<notin> fst ` set varsXY \<and>
    (\<forall>k \<in> fst ` set varsXY. braceFree k)"
    using keys by (simp add: varsXY_def braceFree_def)
  have a': "braceFree ''z'' \<and> ''z'' \<noteq> ''REMINDER'' \<and> ''z'' \<notin> fst ` set varsXY \<and>
    list_all braceFree (map fst varsXY)"
    by (simp add: varsXY_def braceFree_def)
  have b: "''REMINDER'' \<notin> fst ` set varsXY \<and> CHR ''{'' \<notin> set ''say: '' \<and> CHR ''{'' \<notin> set ''!''"
    by (simp add: varsXY_def)
  have c: "''REMINDER'' \<notin> fst ` set varsXY"
    by (simp add: varsXY_def)
  note T = unmatched_placeholders_stay [where w = worldOK and variables = varsXY and name = "''z''"]
  note around = T [where a = "''a={{x}} ''" and b = "'' b={{x}}''" and templateStr = "[]",
      THEN conjunct2, THEN conjunct1, THEN mp, OF a]
  note reminder = T [where a = "''say: ''" and b = "''!''" and templateStr = "[]",
      THEN conjunct2, THEN conjunct2, THEN conjunct2, THEN conjunct2, THEN conjunct2,
      THEN conjunct1, THEN mp, OF b]
  note general = T [where a = "[]" and b = "[]"
      and templateStr = \<open>''{"text":"{{REMINDER}}","x":{{x}}}''\<close>,
      THEN conjunct2, THEN conjunct2, THEN conjunct1, THEN mp, OF c]
  have rendered: \<open>Inr (otherVariables worldOK
      (ReplaceAll ''{"text":"{{REMINDER}}","x":{{x}}}'' ''{{REMINDER}}'' [])
      (rangeOrder (range_seed worldOK varsXY) varsXY)) = (Inr ''{"text":"","x":1}'' :: error + string)\<close>
    by (simp add: varsXY_def worldOK_def placeholder_def valueText_def escapeJSON_def)
  note json = trans [OF general rendered]
  show ?thesis
    by (rule conjI [OF a' conjI [OF around conjI [OF b conjI [OF reminder json]]]])
qed

section \<open>The text inserted for a value\<close>

lemma ReplaceAll_insert:
  assumes "CHR ''{'' \<notin> set pre" and "CHR ''{'' \<notin> set post"
  shows "ReplaceAll (pre @ placeholder k @ post) (placeholder k) new = pre @ new @ post"
proof -
  have ne: "placeholder k \<noteq> []" by (simp add: placeholder_Cons)
  have "ReplaceAll (pre @ placeholder k @ post) (placeholder k) new =
      pre @ ReplaceAll (placeholder k @ post) (placeholder k) new"
    using ReplaceAll_skip [OF assms(1), of "placeholder k @ post" "CHR ''{'' # k @ ''}}''" new]
    by (simp add: placeholder_Cons)
  also have "\<dots> = pre @ new @ ReplaceAll post (placeholder k) new"
    by (simp only: ReplaceAll_here [OF ne])
  finally show ?thesis
    by (simp add: ReplaceAll_placeholder_plain [OF assms(2)])
qed

lemma otherVariables_insert:
  assumes "braceFree k" and "k \<noteq> ''REMINDER''"
    and "CHR ''{'' \<notin> set pre" and "CHR ''{'' \<notin> set post" and "CHR ''{'' \<notin> set (valueText w v)"
  shows "distinct (map fst vs) \<Longrightarrow> \<forall>k' \<in> fst ` set vs. braceFree k' \<Longrightarrow> (k, v) \<in> set vs \<Longrightarrow>
     otherVariables w (pre @ placeholder k @ post) vs = pre @ valueText w v @ post"
proof (induction vs)
  case Nil
  then show ?case by simp
next
  case (Cons p vs)
  obtain k' v' where p: "p = (k', v')" by (cases p)
  from Cons.prems p have d: "distinct (map fst vs)" and fresh: "k' \<notin> fst ` set vs"
    and bf: "\<forall>k' \<in> fst ` set vs. braceFree k'" and k': "braceFree k'"
    by auto
  show ?case
  proof (cases "k' = k")
    case True
    with Cons.prems(3) fresh p have v': "v' = v"
      by (auto simp: image_iff)
    have plain: "CHR ''{'' \<notin> set (pre @ valueText w v @ post)"
      using assms(3-5) by simp
    show ?thesis
      unfolding p True v' otherVariables_step [OF assms(2)] ReplaceAll_insert [OF assms(3,4)]
      by (rule otherVariables_plain [OF plain])
  next
    case False
    with Cons.prems(3) p have mem: "(k, v) \<in> set vs" by auto
    show ?thesis
    proof (cases "k' = ''REMINDER''")
      case True
      with Cons.IH [OF d bf mem] show ?thesis by (simp add: p)
    next
      case notR: False
      have "ReplaceAll (pre @ placeholder k @ post) (placeholder k') (valueText w v') =
          pre @ placeholder k @ post"
        by (simp add: ReplaceAll_around [OF k' assms(1) False]
            ReplaceAll_placeholder_plain assms(3,4))
      then show ?thesis
        unfolding p otherVariables_step [OF notR]
        by (simp add: Cons.IH [OF d bf mem])
    qed
  qed
qed

text \<open>
  Claim C9. The text that replaces a placeholder is, for a string value, the value with
  newline, carriage return, tab and double quote escaped, character by character; for any
  other value it is the JSON encoding of the value, or the result of \<open>fmt.Sprintf\<close> when
  the encoding fails, and the rendering goes on. That text is what the output holds in
  place of the placeholder: for a mapping with distinct keys without braces, a template that
  is the placeholder of a key between two texts without braces renders to the first text,
  the text of the value (when it contains no brace itself), and the second text.
\<close>

theorem substituted_values_are_encoded:
  "valueText w (JString str) = concat (map spec_escapedChar str) \<and>
   ((\<forall>str. v \<noteq> JString str) \<longrightarrow>
      valueText w v = (case json_Marshal w v of Some valueBytes \<Rightarrow> valueBytes | None \<Rightarrow> Sprintf_v w v)) \<and>
   (braceFree k \<and> distinct (map fst variables) \<and> (\<forall>k' \<in> fst ` set variables. braceFree k') \<and>
    map_of variables k = Some v \<and>
    CHR ''{'' \<notin> set pre \<and> CHR ''{'' \<notin> set post \<and> CHR ''{'' \<notin> set (valueText w v) \<longrightarrow>
      processTemplate w (pre @ placeholder k @ post) variables = Inr (pre @ valueText w v @ post))"
proof (intro conjI impI)
  show "valueText w (JString str) = concat (map spec_escapedChar str)"
    by (simp add: valueText_def escapeJSON_chars)
next
  assume "\<forall>str. v \<noteq> JString str"
  then show "valueText w v =
      (case json_Marshal w v of Some valueBytes \<Rightarrow> valueBytes | None \<Rightarrow> Sprintf_v w v)"
    by (cases v) (auto simp: valueText_def split: option.splits)
next
  assume h: "braceFree k \<and> distinct (map fst variables) \<and> (\<forall>k' \<in> fst ` set variables. braceFree k') \<and>
    map_of variables k = Some v \<and>
    CHR ''{'' \<notin> set pre \<and> CHR ''{'' \<notin> set post \<and> CHR ''{'' \<notin> set (valueText w v)"
  then have k: "braceFree k" and d: "distinct (map fst variables)"
    and bf: "\<forall>k' \<in> fst ` set variables. braceFree k'" and v: "map_of variables k = Some v"
    and hpre: "CHR ''{'' \<notin> set pre" and hpost: "CHR ''{'' \<notin> set post"
    and htext: "CHR ''{'' \<notin> set (valueText w v)"
    by blast+
  let ?vs = "rangeOrder (range_seed w variables) variables"
  show "processTemplate w (pre @ placeholder k @ post) variables = Inr (pre @ valueText w v @ post)"
  proof (cases "k = ''REMINDER''")
    case True
    have plain: "CHR ''{'' \<notin> set (pre @ valueText w v @ post)"
      using hpre hpost htext by simp
    have "ReplaceAll (pre @ ''{{REMINDER}}'' @ post) ''{{REMINDER}}'' (valueText w v) =
        pre @ valueText w v @ post"
      unfolding reminderPlaceholder by (rule ReplaceAll_insert [OF hpre hpost])
    with v [unfolded True] show ?thesis
      unfolding processTemplate_eq True reminderPlaceholder [symmetric]
      by (simp add: otherVariables_plain [OF plain])
  next
    case False
    have same: "ReplaceAll (pre @ placeholder k @ post) ''{{REMINDER}}'' new = pre @ placeholder k @ post"
      for new
      unfolding reminderPlaceholder
      by (simp add: ReplaceAll_around [OF braceFree_REMINDER k False [symmetric]]
          ReplaceAll_placeholder_plain hpre hpost)
    have vs: "distinct (map fst ?vs)" "\<forall>k' \<in> fst ` set ?vs. braceFree k'" "(k, v) \<in> set ?vs"
      using d bf map_of_SomeD [OF v] by (simp_all add: distinct_rangeOrder set_rangeOrder)
    show ?thesis
      unfolding processTemplate_eq same
      by (simp add: otherVariables_insert [OF k False hpre hpost htext vs])
  qed
qed

theorem substituted_values_are_encoded_witness:
  \<open>(braceFree ''x'' \<and> distinct (map fst varsQuote) \<and> list_all braceFree (map fst varsQuote) \<and>
    map_of varsQuote ''x'' = Some (JString ''a"b'') \<and>
    CHR ''{'' \<notin> set [] \<and> CHR ''{'' \<notin> set [CHR 0x0A] \<and>
    CHR ''{'' \<notin> set (valueText worldMarshal (JString ''a"b''))) \<and>
   processTemplate worldMarshal ([] @ placeholder ''x'' @ [CHR 0x0A]) varsQuote =
     Inr ([] @ valueText worldMarshal (JString ''a"b'') @ [CHR 0x0A]) \<and>
   valueText worldMarshal (JString ''a"b'') = concat (map spec_escapedChar ''a"b'') \<and>
   concat (map spec_escapedChar ''a"b'') = [CHR ''a'', CHR 0x5C, CHR 0x22, CHR ''b''] \<and>
   json_Marshal worldMarshal (JNumber NumNaN) = None \<and>
   valueText worldMarshal (JNumber NumNaN) =
     (case json_Marshal worldMarshal (JNumber NumNaN) of
        Some valueBytes \<Rightarrow> valueBytes
      | None \<Rightarrow> Sprintf_v worldMarshal (JNumber NumNaN))\<close>
proof -
  note T = substituted_values_are_encoded [where w = worldMarshal and str = \<open>''a"b''\<close>]
  note esc = T [where v = JNull and k = "[]" and variables = "[]" and pre = "[]" and post = "[]",
      THEN conjunct1]
  have chars: \<open>concat (map spec_escapedChar ''a"b'') = [CHR ''a'', CHR 0x5C, CHR 0x22, CHR ''b'']\<close>
    by (simp add: spec_escapedChar_def)
  have keys: "\<forall>k' \<in> fst ` set varsQuote. braceFree k'"
    by (simp add: varsQuote_def braceFree_def)
  have plain: \<open>CHR ''{'' \<notin> set (valueText worldMarshal (JString ''a"b''))\<close>
    unfolding esc chars by simp
  have hyp: \<open>braceFree ''x'' \<and> distinct (map fst varsQuote) \<and>
    (\<forall>k' \<in> fst ` set varsQuote. braceFree k') \<and>
    map_of varsQuote ''x'' = Some (JString ''a"b'') \<and>
    CHR ''{'' \<notin> set [] \<and> CHR ''{'' \<notin> set [CHR 0x0A] \<and>
    CHR ''{'' \<notin> set (valueText worldMarshal (JString ''a"b''))\<close>
    using keys plain by (simp add: varsQuote_def braceFree_def)
  have hyp': \<open>braceFree ''x'' \<and> distinct (map fst varsQuote) \<and> list_all braceFree (map fst varsQuote) \<and>
    map_of varsQuote ''x'' = Some (JString ''a"b'') \<and>
    CHR ''{'' \<notin> set [] \<and> CHR ''{'' \<notin> set [CHR 0x0A] \<and>
    CHR ''{'' \<notin> set (valueText worldMarshal (JString ''a"b''))\<close>
    using plain by (simp add: varsQuote_def braceFree_def)
  note ins = T [where v = \<open>JString ''a"b''\<close> and k = "''x''" and variables = varsQuote
      and pre = "[]" and post = "[CHR 0x0A]",
      THEN conjunct2, THEN conjunct2, THEN mp, OF hyp]
  have notString: "\<forall>str. JNumber NumNaN \<noteq> JString str" by simp
  note other = T [where v = "JNumber NumNaN" and k = "[]" and variables = "[]" and pre = "[]"
      and post = "[]", THEN conjunct2, THEN conjunct1, THEN mp, OF notString]
  have fails: "json_Marshal worldMarshal (JNumber NumNaN) = None"
    by (simp add: worldMarshal_def)
  show ?thesis
    by (rule conjI [OF hyp' conjI [OF ins conjI [OF esc conjI [OF chars conjI [OF fails other]]]]])
qed

section \<open>One trigger for a job, one timer for a reminder\<close>

text \<open>
  The execution of a reminder is its calls followed by its cleanup; only the cleanup is
  done under the lock of the scheduler.
\<close>

lemma executeReminder_parts:
  "executeReminder w job reminder s =
   cleanupReminder w job reminder (reminderCalls w job reminder s)"
  by (simp add: executeReminder_def reminderCalls_def Let_def split: prod.splits)

lemma overlap1_eq:
  "overlap1 = \<lparr>cron = [(1, jobAt 150)], nextID = 1, jobs = [(''a'', 1)],
     config = [jobAt 150], outputs = [], reminders = [(''a_r'', 1)],
     timers = [(1, 150, jobAt 150, reminderAt 150)], nextTimer = 1, sent = [],
     disk = [jobAt 150], ticks = 1\<rparr>"
  by (simp add: overlap1_def AddJob_def New_def removeJobReminders_def worldClock_def worldOK_def
      scheduleReminder_def Let_def reminderKey_def Sub_def minDuration_def maxDuration_def
      jobAt_def jobR_def reminderAt_def)

lemma overlap2_eq:
  "overlap2 = \<lparr>cron = [(1, jobAt 150)], nextID = 1, jobs = [(''a'', 1)],
     config = [jobAt 150], outputs = [], reminders = [(''a_r'', 1)],
     timers = [], nextTimer = 1,
     sent = [\<lparr>req_Method = ''POST'', req_URL = ''http://a'',
               req_Header = [(''Content-Type'', ''application/json'')],
               req_Body = Some ''x'', req_Timeout = None\<rparr>],
     disk = [jobAt 150], ticks = 1\<rparr>"
  by (simp add: overlap2_def overlap1_eq reminderCalls_def reminderPrimary_def executeWebhook_def
      buildRequest_def buildHeader_def processTemplate_def Let_def worldClock_def worldOK_def
      jobAt_def jobR_def reminderAt_def hookA_def)

lemma overlap3_eq:
  "overlap3 = \<lparr>cron = [(2, jobAt 400)], nextID = 2, jobs = [(''a'', 2)],
     config = [jobAt 150], outputs = [], reminders = [(''a_r'', 2)],
     timers = [(2, 400, jobAt 400, reminderAt 400)], nextTimer = 2,
     sent = [\<lparr>req_Method = ''POST'', req_URL = ''http://a'',
               req_Header = [(''Content-Type'', ''application/json'')],
               req_Body = Some ''x'', req_Timeout = None\<rparr>],
     disk = [jobAt 150], ticks = 2\<rparr>"
  by (simp add: overlap3_def overlap2_eq AddJob_def removeJobReminders_def HasPrefix_def
      worldClock_def worldOK_def
      scheduleReminder_def Let_def reminderKey_def Sub_def minDuration_def maxDuration_def
      jobAt_def jobR_def reminderAt_def)

lemma overlap4_eq:
  "overlap4 = \<lparr>cron = [(2, jobAt 400)], nextID = 2, jobs = [(''a'', 2)],
     config = [(jobAt 150)\<lparr>Reminders := []\<rparr>], outputs = [], reminders = [],
     timers = [(2, 400, jobAt 400, reminderAt 400)], nextTimer = 2,
     sent = [\<lparr>req_Method = ''POST'', req_URL = ''http://a'',
               req_Header = [(''Content-Type'', ''application/json'')],
               req_Body = Some ''x'', req_Timeout = None\<rparr>],
     disk = [(jobAt 150)\<lparr>Reminders := []\<rparr>], ticks = 2\<rparr>"
  by (simp add: overlap4_def overlap3_eq cleanupReminder_def Let_def reminderKey_def
      worldClock_def worldOK_def jobAt_def jobR_def reminderAt_def)

lemma overlap5_eq:
  "overlap5 = \<lparr>cron = [(3, jobAt 400)], nextID = 3, jobs = [(''a'', 3)],
     config = [(jobAt 150)\<lparr>Reminders := []\<rparr>], outputs = [], reminders = [(''a_r'', 3)],
     timers = [(2, 400, jobAt 400, reminderAt 400), (3, 400, jobAt 400, reminderAt 400)],
     nextTimer = 3,
     sent = [\<lparr>req_Method = ''POST'', req_URL = ''http://a'',
               req_Header = [(''Content-Type'', ''application/json'')],
               req_Body = Some ''x'', req_Timeout = None\<rparr>],
     disk = [(jobAt 150)\<lparr>Reminders := []\<rparr>], ticks = 3\<rparr>"
  by (simp add: overlap5_def overlap4_eq AddJob_def removeJobReminders_def HasPrefix_def
      worldClock_def worldOK_def
      scheduleReminder_def Let_def reminderKey_def Sub_def minDuration_def maxDuration_def
      jobAt_def jobR_def reminderAt_def)

lemma jobDup_added:
  "snd (AddJob worldOK jobDup (New [jobDup])) =
   \<lparr>cron = [(1, jobDup)], nextID = 1, jobs = [(''a'', 1)],
     config = [jobDup], outputs = [], reminders = [(''a_r'', 2)],
     timers = [(1, 200, jobDup, reminderAt 200), (2, 300, jobDup, reminderAt 300)],
     nextTimer = 2, sent = [], disk = [jobDup], ticks = 2\<rparr>"
  by (simp add: AddJob_def New_def removeJobReminders_def worldOK_def
      scheduleReminder_def Let_def reminderKey_def Sub_def minDuration_def maxDuration_def
      jobDup_def jobR_def reminderAt_def)

text \<open>
  Claim C6 does not hold of the code. \<open>AddJob\<close> does remove the prior trigger of the job and
  stops the timers registered in \<open>reminders\<close> under the prefix of the job before it installs
  new ones, as its comments say, but a pending timer can lose its registration, or never
  have one, and is then out of reach:
  \<^item> while the reminder \<open>r\<close> of the job \<open>a\<close> is being executed, the job is added again
    (\<open>overlap3\<close>, timer 2 under the key \<open>a_r\<close>); the cleanup of the execution then deletes
    the key \<open>a_r\<close>, which by now names timer 2 (\<open>overlap4\<close>); the next \<open>AddJob\<close> finds no timer
    to stop and installs timer 3: two timers are pending for the reminder \<open>r\<close> of the job
    \<open>a\<close> (\<open>overlap5\<close>), and \<open>RemoveJob\<close> stops only the one that is registered;
  \<^item> \<open>scheduleReminder\<close> overwrites the entry of a key without stopping the timer the key
    named: a job added with two reminders under one id has two pending timers for it.
\<close>

theorem overlapping_firing_leaves_two_timers:
  "ID (jobAt 150) = ''a'' \<and> ID (jobAt 400) = ''a'' \<and>
   ReminderID (reminderAt 150) = ''r'' \<and> ReminderID (reminderAt 400) = ''r'' \<and>
   timers overlap1 = [(1, 150, jobAt 150, reminderAt 150)] \<and> reminders overlap1 = [(''a_r'', 1)] \<and>
   timers overlap2 = [] \<and> reminders overlap2 = [(''a_r'', 1)] \<and>
   timers overlap3 = [(2, 400, jobAt 400, reminderAt 400)] \<and> reminders overlap3 = [(''a_r'', 2)] \<and>
   timers overlap4 = [(2, 400, jobAt 400, reminderAt 400)] \<and> reminders overlap4 = [] \<and>
   timers overlap5 = [(2, 400, jobAt 400, reminderAt 400), (3, 400, jobAt 400, reminderAt 400)] \<and>
   reminders overlap5 = [(''a_r'', 3)] \<and>
   timers (snd (RemoveJob ''a'' overlap5)) = [(2, 400, jobAt 400, reminderAt 400)] \<and>
   ID jobDup = ''a'' \<and> map ReminderID (Reminders jobDup) = [''r'', ''r''] \<and>
   timers (snd (AddJob worldOK jobDup (New [jobDup]))) =
     [(1, 200, jobDup, reminderAt 200), (2, 300, jobDup, reminderAt 300)] \<and>
   reminders (snd (AddJob worldOK jobDup (New [jobDup]))) = [(''a_r'', 2)]"
  by (simp add: overlap1_eq overlap2_eq overlap3_eq overlap4_eq overlap5_eq jobDup_added
      RemoveJob_def removeJobReminders_def HasPrefix_def Let_def)
    (simp add: jobAt_def jobR_def jobDup_def reminderAt_def)

end
